theory Spec2Isabelle
  imports Main "HOL-Library.Word"
begin

section \<open>Shared types\<close>

text \<open>
  Go's \<^verbatim>\<open>uint64\<close> is a 64-bit word (\<open>+\<close> wraps around). A \<^verbatim>\<open>[32]byte\<close> array is
  a 256-bit word, read big-endian. A \<^verbatim>\<open>felt.Felt\<close> is represented by its canonical
  32-byte encoding, so \<^verbatim>\<open>Felt.Bytes()\<close> is the identity on the representation and
  \<^verbatim>\<open>new(felt.Felt)\<close> is the zero word. A pointer that the code never dereferences
  before storing it (\<^verbatim>\<open>*big.Int\<close>, \<^verbatim>\<open>*felt.Felt\<close> fields of \<^verbatim>\<open>AgentInfo\<close> and
  \<^verbatim>\<open>TokenInfo\<close>) is an \<open>option\<close>, with \<open>None\<close> for \<^verbatim>\<open>nil\<close>. Wall-clock instants are
  natural numbers of nanoseconds; \<open>0\<close> is Go's zero instant.
\<close>

type_synonym u64 = "64 word"
type_synonym bytes32 = "256 word"
type_synonym felt = "256 word"
type_synonym instant = nat

definition Bytes :: "felt \<Rightarrow> bytes32" where
  "Bytes f = f"

definition IsZero :: "instant \<Rightarrow> bool" where
  "IsZero t = (t = 0)"

datatype log_level = Warn | Error

type_synonym log = "log_level \<times> string"

text \<open>
  A Go call either returns or panics. The panics that the modelled code can raise:
\<close>

datatype go_panic =
    MakeSliceLenOutOfRange
  | MakeSliceCapOutOfRange
  | IndexOutOfRange
  | NilPointerDereference

text \<open>
  \<^verbatim>\<open>make([]T, len, cap)\<close> panics when \<open>cap\<close> elements need more than the runtime's
  \<open>maxAlloc\<close> bytes (\<open>2\<^sup>4\<^sup>8\<close> on 64-bit Linux); a \<^verbatim>\<open>uint64\<close> size of \<open>2\<^sup>6\<^sup>3\<close> or more is
  negative as an \<^verbatim>\<open>int\<close> and fails the same test. A pointer takes 8 bytes. Running out
  of memory below that bound is a fatal error of the runtime and is not modelled.
\<close>

definition maxAlloc :: nat where
  "maxAlloc = 2 ^ 48"

definition makesliceCapOutOfRange :: "nat \<Rightarrow> u64 \<Rightarrow> bool" where
  "makesliceCapOutOfRange elemSize cap = (maxAlloc < elemSize * unat cap)"

section \<open>The expirable LRU behind the prompt cache\<close>

text \<open>
  \<^verbatim>\<open>expirable.LRU\<close> is an external library (hashicorp/golang-lru). Its state is
  modelled as the eviction list, most recently added entry first, every entry carrying
  its key, value and expiry instant. \<open>Add\<close> renews an existing key or pushes a new entry
  and drops the oldest one when the size is exceeded; \<open>Peek\<close> reports an entry only while
  the clock has not passed its expiry; \<open>Remove\<close> deletes by key; \<open>deleteExpired\<close> is the
  library's background sweep, which may run between any two operations.
\<close>

record 'v lru_entry =
  Key :: string
  Value :: 'v
  ExpiresAt :: instant

type_synonym 'v lru = "'v lru_entry list"

definition lru_Add :: "nat \<Rightarrow> nat \<Rightarrow> instant \<Rightarrow> string \<Rightarrow> 'v \<Rightarrow> 'v lru \<Rightarrow> 'v lru" where
  "lru_Add cap ttl now k v c =
     (let ent = \<lparr>Key = k, Value = v, ExpiresAt = now + ttl\<rparr> in
      if k \<in> set (map Key c) then ent # filter (\<lambda>e. Key e \<noteq> k) c
      else (let c' = ent # c in
            if cap > 0 \<and> length c' > cap then butlast c' else c'))"

definition lru_Peek :: "instant \<Rightarrow> string \<Rightarrow> 'v lru \<Rightarrow> 'v option" where
  "lru_Peek now k c =
     (case find (\<lambda>e. Key e = k) c of
        None \<Rightarrow> None
      | Some ent \<Rightarrow> if now > ExpiresAt ent then None else Some (Value ent))"

definition lru_Remove :: "string \<Rightarrow> 'v lru \<Rightarrow> 'v lru" where
  "lru_Remove k c = filter (\<lambda>e. Key e \<noteq> k) c"

definition lru_deleteExpired :: "instant \<Rightarrow> 'v lru \<Rightarrow> 'v lru" where
  "lru_deleteExpired now c = filter (\<lambda>e. \<not> now > ExpiresAt e) c"

section \<open>The agent usage database (agent\_usage\_indexer\_db.go)\<close>

record AgentUsageLatestPrompt =
  lp_PromptID :: u64
  lp_TweetID :: u64
  lp_Prompt :: string
  lp_IsSuccess :: bool
  lp_DrainedTo :: felt

record AgentUsage =
  BreakAttempts :: u64
  LatestPrompts :: "AgentUsageLatestPrompt list"
  IsDrained :: bool

text \<open>The fields of the two prompt events that the database reads.\<close>

record PromptPaidEvent =
  pp_PromptID :: u64
  pp_TweetID :: u64
  pp_Prompt :: string

record PromptConsumedEvent =
  pc_PromptID :: u64
  pc_DrainedTo :: felt

record PromptCacheData =
  cd_TweetID :: u64
  cd_Prompt :: string

record AgentUsageIndexerDatabaseInMemory =
  usages :: "bytes32 \<rightharpoonup> AgentUsage"
  maxPrompts :: u64
  promptCache :: "PromptCacheData lru"
  lastIndexedBlock :: u64

definition agentUsageIndexerPromptCacheSize :: nat where
  "agentUsageIndexerPromptCacheSize = 10000"

text \<open>30 minutes, in nanoseconds as Go's \<^verbatim>\<open>time.Duration\<close> counts them.\<close>

definition agentUsageIndexerPromptCacheTTL :: nat where
  "agentUsageIndexerPromptCacheTTL = 30 * 60 * 1000000000"

definition NewAgentUsageIndexerDatabaseInMemory ::
  "u64 \<Rightarrow> u64 \<Rightarrow> AgentUsageIndexerDatabaseInMemory" where
  "NewAgentUsageIndexerDatabaseInMemory initialBlock maxP =
     \<lparr>usages = Map.empty, maxPrompts = maxP, promptCache = [],
      lastIndexedBlock = initialBlock\<rparr>"

definition GetAgentUsage :: "AgentUsageIndexerDatabaseInMemory \<Rightarrow> bytes32 \<Rightarrow> AgentUsage option" where
  "GetAgentUsage db addr = usages db addr"

definition GetAgentExists :: "AgentUsageIndexerDatabaseInMemory \<Rightarrow> bytes32 \<Rightarrow> bool" where
  "GetAgentExists db addr = (usages db addr \<noteq> None)"

text \<open>
  A fresh usage starts with an empty history of capacity \<^verbatim>\<open>maxPrompts+1\<close> (a \<^verbatim>\<open>uint64\<close>
  sum); \<^verbatim>\<open>make\<close> panics when that capacity of pointers is out of range. An existing
  usage is returned as it is.
\<close>

definition getOrCreateAgentUsage ::
  "AgentUsageIndexerDatabaseInMemory \<Rightarrow> bytes32 \<Rightarrow> go_panic + AgentUsage" where
  "getOrCreateAgentUsage db addr =
     (case usages db addr of
        Some usage \<Rightarrow> Inr usage
      | None \<Rightarrow>
          if makesliceCapOutOfRange 8 (maxPrompts db + 1) then Inl MakeSliceCapOutOfRange
          else Inr \<lparr>BreakAttempts = 0, LatestPrompts = [], IsDrained = False\<rparr>)"

definition StoreAgent ::
  "bytes32 \<Rightarrow> AgentUsageIndexerDatabaseInMemory
     \<Rightarrow> go_panic + AgentUsageIndexerDatabaseInMemory" where
  "StoreAgent addr db =
     (case getOrCreateAgentUsage db addr of
        Inl p \<Rightarrow> Inl p
      | Inr usage \<Rightarrow> Inr (db\<lparr>usages := (usages db)(addr \<mapsto> usage)\<rparr>))"

text \<open>
  \<^verbatim>\<open>fmt.Sprintf("%s-%d", addr, promptID)\<close>: the verb \<^verbatim>\<open>%s\<close> on a byte array writes its
  32 raw bytes, \<^verbatim>\<open>%d\<close> writes the prompt id in decimal.
\<close>

definition rawBytes :: "bytes32 \<Rightarrow> string" where
  "rawBytes addr = map (\<lambda>i. char_of (drop_bit (8 * (31 - i)) (unat addr))) [0..<32]"

fun decimal :: "nat \<Rightarrow> string" where
  "decimal n =
     (if n < 10 then [char_of (48 + n)]
      else decimal (n div 10) @ [char_of (48 + n mod 10)])"

declare decimal.simps [simp del]

definition promptCacheKey :: "bytes32 \<Rightarrow> u64 \<Rightarrow> string" where
  "promptCacheKey addr promptID = rawBytes addr @ ''-'' @ decimal (unat promptID)"

definition StorePromptPaidData ::
  "instant \<Rightarrow> bytes32 \<Rightarrow> PromptPaidEvent \<Rightarrow> AgentUsageIndexerDatabaseInMemory
     \<Rightarrow> AgentUsageIndexerDatabaseInMemory" where
  "StorePromptPaidData now addr promptPaidEvent db =
     db\<lparr>promptCache :=
          lru_Add agentUsageIndexerPromptCacheSize agentUsageIndexerPromptCacheTTL now
            (promptCacheKey addr (pp_PromptID promptPaidEvent))
            \<lparr>cd_TweetID = pp_TweetID promptPaidEvent, cd_Prompt = pp_Prompt promptPaidEvent\<rparr>
            (promptCache db)\<rparr>"

text \<open>
  The function returns the new database together with the lines it logs, or the panic
  of \<open>getOrCreateAgentUsage\<close>, raised before anything is changed. \<open>now\<close> is the clock the
  cache reads in \<open>Peek\<close>.
\<close>

definition StorePromptConsumedData ::
  "instant \<Rightarrow> bytes32 \<Rightarrow> PromptConsumedEvent \<Rightarrow> AgentUsageIndexerDatabaseInMemory
     \<Rightarrow> go_panic + (AgentUsageIndexerDatabaseInMemory \<times> log list)" where
  "StorePromptConsumedData now addr promptConsumedEvent db =
     (case getOrCreateAgentUsage db addr of
        Inl p \<Rightarrow> Inl p
      | Inr usage \<Rightarrow> Inr
     (let usage = usage\<lparr>BreakAttempts := BreakAttempts usage + 1\<rparr>;
          (succeeded, drainAddress) =
             (if Bytes (pc_DrainedTo promptConsumedEvent) = addr then (False, 0)
              else (True, pc_DrainedTo promptConsumedEvent));
          promptCacheKey = promptCacheKey addr (pc_PromptID promptConsumedEvent);
          (promptCacheData, cache, logs) =
             (case lru_Peek now promptCacheKey (promptCache db) of
                None \<Rightarrow> (\<lparr>cd_TweetID = 0, cd_Prompt = ''''\<rparr>, promptCache db,
                          [(Error, ''prompt not found in cache'')])
              | Some d \<Rightarrow> (d, lru_Remove promptCacheKey (promptCache db), []));
          usage = (if succeeded then usage\<lparr>IsDrained := True\<rparr> else usage);
          usage = usage\<lparr>LatestPrompts := LatestPrompts usage @
                    [\<lparr>lp_PromptID = pc_PromptID promptConsumedEvent,
                      lp_TweetID = cd_TweetID promptCacheData,
                      lp_Prompt = cd_Prompt promptCacheData,
                      lp_IsSuccess = succeeded,
                      lp_DrainedTo = drainAddress\<rparr>]\<rparr>;
          usage = (if length (LatestPrompts usage) > unat (maxPrompts db)
                   then usage\<lparr>LatestPrompts := tl (LatestPrompts usage)\<rparr> else usage)
      in (db\<lparr>usages := (usages db)(addr \<mapsto> usage), promptCache := cache\<rparr>, logs)))"

definition GetLastIndexedBlock :: "AgentUsageIndexerDatabaseInMemory \<Rightarrow> u64" where
  "GetLastIndexedBlock db = lastIndexedBlock db"

definition SetLastIndexedBlock ::
  "u64 \<Rightarrow> AgentUsageIndexerDatabaseInMemory \<Rightarrow> AgentUsageIndexerDatabaseInMemory" where
  "SetLastIndexedBlock block db = db\<lparr>lastIndexedBlock := block\<rparr>"

section \<open>Runs of the usage database\<close>

text \<open>
  Every writer of the database, and the cache's background sweep, as one operation each;
  a run applies a list of them in order and ends with the first panic. The states a
  database can be in are the results of the runs from
  \<open>NewAgentUsageIndexerDatabaseInMemory\<close>.
\<close>

datatype usage_op =
    OpStoreAgent bytes32
  | OpPromptPaid instant bytes32 PromptPaidEvent
  | OpPromptConsumed instant bytes32 PromptConsumedEvent
  | OpSetLastIndexedBlock u64
  | OpDeleteExpired instant

fun usage_step ::
  "AgentUsageIndexerDatabaseInMemory \<Rightarrow> usage_op
     \<Rightarrow> go_panic + AgentUsageIndexerDatabaseInMemory" where
  "usage_step db (OpStoreAgent addr) = StoreAgent addr db"
| "usage_step db (OpPromptPaid now addr ev) = Inr (StorePromptPaidData now addr ev db)"
| "usage_step db (OpPromptConsumed now addr ev) =
     (case StorePromptConsumedData now addr ev db of
        Inl p \<Rightarrow> Inl p
      | Inr (db', logs) \<Rightarrow> Inr db')"
| "usage_step db (OpSetLastIndexedBlock block) = Inr (SetLastIndexedBlock block db)"
| "usage_step db (OpDeleteExpired now) =
     Inr (db\<lparr>promptCache := lru_deleteExpired now (promptCache db)\<rparr>)"

fun usage_run ::
  "AgentUsageIndexerDatabaseInMemory \<Rightarrow> usage_op list
     \<Rightarrow> go_panic + AgentUsageIndexerDatabaseInMemory" where
  "usage_run db [] = Inr db"
| "usage_run db (op # ops) =
     (case usage_step db op of
        Inl p \<Rightarrow> Inl p
      | Inr db' \<Rightarrow> usage_run db' ops)"

section \<open>Events\<close>

text \<open>
  The event types and their decoders \<^verbatim>\<open>ToAgentRegisteredEvent\<close>,
  \<^verbatim>\<open>ToTokenAddedEvent\<close> and \<^verbatim>\<open>ToTokenRemovedEvent\<close> are declared outside the indexer
  sources covered here; the decoders are pure functions of the raw event. An event is
  therefore given by its emitter and by what each decoder returns on it (\<open>None\<close> when
  the decoder reports \<^verbatim>\<open>ok = false\<close>), and a decoded event by the fields the indexers
  read.
\<close>

record AgentRegisteredEvent =
  ar_Agent :: felt
  ar_Creator :: felt
  ar_Name :: string
  ar_SystemPrompt :: string
  ar_PromptPrice :: "int option"
  ar_TokenAddress :: "felt option"
  ar_EndTime :: u64

record TokenAddedEvent =
  ta_Token :: felt
  ta_MinPromptPrice :: "int option"
  ta_MinInitialBalance :: "int option"

record TokenRemovedEvent =
  tr_Token :: felt

record Event =
  FromAddress :: felt
  ToAgentRegisteredEvent :: "AgentRegisteredEvent option"
  ToTokenAddedEvent :: "TokenAddedEvent option"
  ToTokenRemovedEvent :: "TokenRemovedEvent option"

section \<open>The token indexer (token\_indexer.go)\<close>

record TokenInfo =
  MinPromptPrice :: "int option"
  MinInitialBalance :: "int option"
  Rate :: "int option"
  RateTime :: instant

text \<open>
  Modelled from the spec: the in-memory token database \<^verbatim>\<open>TokenIndexerDatabaseInMemory\<close>
  is missing from the sources covered here. The data model describes the token
  projection as a store of \<open>TokenInfo\<close> keyed by token address, with a watermark.
\<close>

record TokenIndexerDatabaseInMemory =
  tokens :: "bytes32 \<rightharpoonup> TokenInfo"
  tk_lastIndexedBlock :: u64

text \<open>
  Modelled from the spec: \<^verbatim>\<open>SetTokenInfo\<close> of the missing token database. Storing an
  info replaces the entry. The indexer passes a \<^verbatim>\<open>nil\<close> info on removal, and by the
  component design a removal "sets the entry to a sentinel with minPromptPrice = 0",
  the token's "last-known rate is preserved": storing \<open>None\<close> sets \<open>MinPromptPrice\<close> of
  the entry to 0 and keeps its other fields; for a token without an entry the sentinel
  has no rate.
\<close>

definition SetTokenInfo ::
  "bytes32 \<Rightarrow> TokenInfo option \<Rightarrow> TokenIndexerDatabaseInMemory \<Rightarrow> TokenIndexerDatabaseInMemory" where
  "SetTokenInfo addr info db =
     db\<lparr>tokens := (tokens db)(addr \<mapsto>
          (case info of
             Some new \<Rightarrow> new
           | None \<Rightarrow>
               (case tokens db addr of
                  Some old \<Rightarrow> old\<lparr>MinPromptPrice := Some 0\<rparr>
                | None \<Rightarrow> \<lparr>MinPromptPrice = Some 0, MinInitialBalance = None,
                            Rate = None, RateTime = 0\<rparr>)))\<rparr>"

text \<open>
  Modelled from the spec: \<^verbatim>\<open>GetTokenInfo\<close> of the missing token database, the lookup
  by token address; \<open>None\<close> is the Go result \<^verbatim>\<open>(nil, false)\<close>.
\<close>

definition GetTokenInfo :: "TokenIndexerDatabaseInMemory \<Rightarrow> bytes32 \<Rightarrow> TokenInfo option" where
  "GetTokenInfo db addr = tokens db addr"

text \<open>
  Modelled from the spec: the constructor of the missing token database; no token is
  known at the start.
\<close>

definition NewTokenIndexerDatabaseInMemory :: "u64 \<Rightarrow> TokenIndexerDatabaseInMemory" where
  "NewTokenIndexerDatabaseInMemory initialBlock =
     \<lparr>tokens = Map.empty, tk_lastIndexedBlock = initialBlock\<rparr>"

record TokenIndexer =
  tk_db :: TokenIndexerDatabaseInMemory
  tk_registryAddress :: felt

definition NewTokenIndexer :: "felt \<Rightarrow> TokenIndexer" where
  "NewTokenIndexer registry =
     \<lparr>tk_db = NewTokenIndexerDatabaseInMemory 0, tk_registryAddress = registry\<rparr>"

definition onTokenAdded :: "TokenIndexer \<Rightarrow> Event \<Rightarrow> TokenIndexer \<times> log list" where
  "onTokenAdded i ev =
     (if FromAddress ev \<noteq> tk_registryAddress i
      then (i, [(Warn, ''ignoring token added event from non-registry address'')])
      else (case ToTokenAddedEvent ev of
              None \<Rightarrow> (i, [(Error, ''failed to parse token added event'')])
            | Some tokenAddedEv \<Rightarrow>
                (i\<lparr>tk_db := SetTokenInfo (Bytes (ta_Token tokenAddedEv))
                     (Some \<lparr>MinPromptPrice = ta_MinPromptPrice tokenAddedEv,
                            MinInitialBalance = ta_MinInitialBalance tokenAddedEv,
                            Rate = None, RateTime = 0\<rparr>) (tk_db i)\<rparr>, [])))"

definition onTokenRemoved :: "TokenIndexer \<Rightarrow> Event \<Rightarrow> TokenIndexer \<times> log list" where
  "onTokenRemoved i ev =
     (if FromAddress ev \<noteq> tk_registryAddress i
      then (i, [(Warn, ''ignoring token removed event from non-registry address'')])
      else (case ToTokenRemovedEvent ev of
              None \<Rightarrow> (i, [(Error, ''failed to parse token removed event'')])
            | Some tokenRemovedEv \<Rightarrow>
                (i\<lparr>tk_db := SetTokenInfo (Bytes (tr_Token tokenRemovedEv)) None (tk_db i)\<rparr>, [])))"

text \<open>
  One tick of \<^verbatim>\<open>updatePricesTask\<close>, taken without interleaved events: every token of
  the snapshot whose price the feed delivers gets the price and the current time; a
  token for which the feed fails (\<open>None\<close>) keeps its entry.
\<close>

definition updatePrices :: "(felt \<Rightarrow> int option option) \<Rightarrow> instant \<Rightarrow> TokenIndexer \<Rightarrow> TokenIndexer" where
  "updatePrices priceFeed now i =
     i\<lparr>tk_db := (tk_db i)\<lparr>tokens := (\<lambda>tokenBytes.
          case tokens (tk_db i) tokenBytes of
            None \<Rightarrow> None
          | Some info \<Rightarrow>
              (case priceFeed tokenBytes of
                 None \<Rightarrow> Some info
               | Some price \<Rightarrow> Some (info\<lparr>Rate := price, RateTime := now\<rparr>)))\<rparr>\<rparr>"

text \<open>A getter's Go result \<^verbatim>\<open>(value, found)\<close> is \<open>Some value\<close> when found and \<open>None\<close> otherwise.\<close>

definition GetTokenMinPromptPrice :: "TokenIndexer \<Rightarrow> felt \<Rightarrow> int option option" where
  "GetTokenMinPromptPrice i token =
     (case GetTokenInfo (tk_db i) (Bytes token) of
        None \<Rightarrow> None
      | Some tokenInfo \<Rightarrow> Some (MinPromptPrice tokenInfo))"

definition GetTokenMinInitialBalance :: "TokenIndexer \<Rightarrow> felt \<Rightarrow> int option option" where
  "GetTokenMinInitialBalance i token =
     (case GetTokenInfo (tk_db i) (Bytes token) of
        None \<Rightarrow> None
      | Some tokenInfo \<Rightarrow> Some (MinInitialBalance tokenInfo))"

definition GetTokenRate :: "TokenIndexer \<Rightarrow> felt \<Rightarrow> int option option" where
  "GetTokenRate i token =
     (case GetTokenInfo (tk_db i) (Bytes token) of
        None \<Rightarrow> None
      | Some tokenInfo \<Rightarrow>
          if IsZero (RateTime tokenInfo) then None else Some (Rate tokenInfo))"

section \<open>The agent indexer (agent\_indexer.go)\<close>

record AgentInfo =
  Address :: "felt option"
  Creator :: "felt option"
  Name :: string
  SystemPrompt :: string
  PromptPrice :: "int option"
  TokenAddress :: "felt option"
  EndTime :: u64

text \<open>Go's zero value \<^verbatim>\<open>AgentInfo{}\<close>.\<close>

definition AgentInfo_zero :: AgentInfo where
  "AgentInfo_zero =
     \<lparr>Address = None, Creator = None, Name = [], SystemPrompt = [],
      PromptPrice = None, TokenAddress = None, EndTime = 0\<rparr>"

text \<open>
  Modelled from the spec: the in-memory agent database \<^verbatim>\<open>AgentIndexerDatabaseInMemory\<close>
  is missing from the sources covered here. The component design gives it an index by
  address, an index "creator \<open>\<rightarrow>\<close> ordered list of agent addresses (insertion order =
  registration order)" and a watermark.
\<close>

record AgentIndexerDatabaseInMemory =
  infos :: "bytes32 \<rightharpoonup> AgentInfo"
  byCreator :: "bytes32 \<Rightarrow> bytes32 list"
  ag_lastIndexedBlock :: u64

text \<open>
  Modelled from the spec: the constructor of the missing agent database; no agent is
  known at the start.
\<close>

definition NewAgentIndexerDatabaseInMemory :: "u64 \<Rightarrow> AgentIndexerDatabaseInMemory" where
  "NewAgentIndexerDatabaseInMemory initialBlock =
     \<lparr>infos = Map.empty, byCreator = (\<lambda>creator. []), ag_lastIndexedBlock = initialBlock\<rparr>"

text \<open>
  Modelled from the spec: \<^verbatim>\<open>SetAgentInfo\<close> of the missing agent database. It stores the
  info under the agent's address and appends the address to its creator's list, which
  keeps the order of registration.
\<close>

definition SetAgentInfo ::
  "bytes32 \<Rightarrow> AgentInfo \<Rightarrow> AgentIndexerDatabaseInMemory \<Rightarrow> AgentIndexerDatabaseInMemory" where
  "SetAgentInfo addr info db =
     db\<lparr>infos := (infos db)(addr \<mapsto> info),
        byCreator := (case Creator info of
                        None \<Rightarrow> byCreator db
                      | Some c \<Rightarrow> (byCreator db)(Bytes c := byCreator db (Bytes c) @ [addr]))\<rparr>"

text \<open>
  Modelled from the spec: \<^verbatim>\<open>GetAgentInfo\<close> of the missing agent database, the lookup
  by address; \<open>None\<close> is the Go result \<^verbatim>\<open>ok = false\<close>.
\<close>

definition GetAgentInfo :: "AgentIndexerDatabaseInMemory \<Rightarrow> bytes32 \<Rightarrow> AgentInfo option" where
  "GetAgentInfo db addr = infos db addr"

text \<open>
  Modelled from the spec: \<^verbatim>\<open>GetAddressesByCreator\<close> of the missing agent database, the
  creator's list of agent addresses in registration order.
\<close>

definition GetAddressesByCreator :: "AgentIndexerDatabaseInMemory \<Rightarrow> bytes32 \<Rightarrow> bytes32 list" where
  "GetAddressesByCreator db creator = byCreator db creator"

text \<open>
  Modelled from the spec: \<^verbatim>\<open>GetLastIndexedBlock\<close> of the missing agent database, its
  watermark.
\<close>

definition ag_GetLastIndexedBlock :: "AgentIndexerDatabaseInMemory \<Rightarrow> u64" where
  "ag_GetLastIndexedBlock db = ag_lastIndexedBlock db"

record AgentIndexer =
  ag_db :: AgentIndexerDatabaseInMemory
  ag_registryAddress :: felt

definition NewAgentIndexer :: "felt \<Rightarrow> AgentIndexer" where
  "NewAgentIndexer registry =
     \<lparr>ag_db = NewAgentIndexerDatabaseInMemory 0, ag_registryAddress = registry\<rparr>"

definition onAgentRegistered :: "AgentIndexer \<Rightarrow> Event \<Rightarrow> AgentIndexer \<times> log list" where
  "onAgentRegistered i ev =
     (if FromAddress ev \<noteq> ag_registryAddress i
      then (i, [(Warn, ''received agent registered event from non-registry address'')])
      else (case ToAgentRegisteredEvent ev of
              None \<Rightarrow> (i, [(Error, ''failed to parse agent registered event'')])
            | Some agentRegisteredEv \<Rightarrow>
                (i\<lparr>ag_db := SetAgentInfo (Bytes (ar_Agent agentRegisteredEv))
                     \<lparr>Address = Some (ar_Agent agentRegisteredEv),
                      Creator = Some (ar_Creator agentRegisteredEv),
                      Name = ar_Name agentRegisteredEv,
                      SystemPrompt = ar_SystemPrompt agentRegisteredEv,
                      PromptPrice = ar_PromptPrice agentRegisteredEv,
                      TokenAddress = ar_TokenAddress agentRegisteredEv,
                      EndTime = ar_EndTime agentRegisteredEv\<rparr> (ag_db i)\<rparr>, [])))"


record AgentsByCreatorResult =
  Agents :: "AgentInfo list"
  AgentCount :: u64
  LastBlock :: u64

text \<open>
  The Go result \<^verbatim>\<open>(nil, false)\<close> is \<open>None\<close>. \<^verbatim>\<open>start + limit\<close> is a \<^verbatim>\<open>uint64\<close> sum and
  wraps; when the wrapped \<^verbatim>\<open>end\<close> lies below \<^verbatim>\<open>start\<close>, \<^verbatim>\<open>end-start\<close> wraps as well and
  \<^verbatim>\<open>make\<close> panics on a length beyond the range of \<^verbatim>\<open>int\<close>. An address of the creator
  index without an info leaves the zero \<open>AgentInfo\<close> in its place and logs an error.
\<close>

definition GetAgentsByCreator ::
  "AgentIndexer \<Rightarrow> felt \<Rightarrow> u64 \<Rightarrow> u64 \<Rightarrow> go_panic + (AgentsByCreatorResult option \<times> log list)" where
  "GetAgentsByCreator i creator start limit =
     (let agents = GetAddressesByCreator (ag_db i) (Bytes creator) in
      if length agents \<le> unat start then Inr (None, [])
      else
        (let end = start + limit;
             end = (if unat end > length agents then word_of_nat (length agents) else end)
         in if end < start then Inl MakeSliceLenOutOfRange
            else
              (let page = take (unat end - unat start) (drop (unat start) agents);
                   agentInfos = map (\<lambda>addr. case GetAgentInfo (ag_db i) addr of
                                              Some info \<Rightarrow> info | None \<Rightarrow> AgentInfo_zero) page;
                   logs = map (\<lambda>addr. (Error, ''agent not found''))
                            (filter (\<lambda>addr. GetAgentInfo (ag_db i) addr = None) page)
               in Inr (Some \<lparr>Agents = agentInfos,
                             AgentCount = word_of_nat (length agents),
                             LastBlock = ag_GetLastIndexedBlock (ag_db i)\<rparr>, logs))))"

subsection \<open>On-demand fetch\<close>

text \<open>
  A selector is represented by the entry-point name it is the hash of. The provider is
  a function from a call and a block id to the felts returned or an error message;
  \<^verbatim>\<open>client.Do\<close> runs the callback on it and hands its error through.
  \<^verbatim>\<open>ByteArrFeltToString\<close> is a library function, taken as a parameter. Every function
  returns, besides its result, the list of calls it issued, in order.
\<close>

type_synonym selector = string

definition isAgentRegisteredSelector :: selector where
  "isAgentRegisteredSelector = ''is_agent_registered''"

definition getSystemPromptSelector :: selector where
  "getSystemPromptSelector = ''get_system_prompt''"

definition getNameSelector :: selector where
  "getNameSelector = ''get_name''"

record FunctionCall =
  ContractAddress :: felt
  EntryPointSelector :: selector
  Calldata :: "felt list"

datatype BlockID = WithBlockTag string | WithBlockNumber u64

type_synonym rpc_call = "FunctionCall \<times> BlockID"
type_synonym provider = "rpc_call \<Rightarrow> string + felt list"

datatype error = Err string | Panic go_panic

text \<open>
  \<^verbatim>\<open>ByteArrFeltToString\<close> returns the string, returns an error (\<open>Inl (Err msg)\<close>) or
  panics (\<open>Inl (Panic p)\<close>); a panic of the library passes through \<open>fetchAgentInfo\<close>.
  Indexing the answer to \<open>is_agent_registered\<close> at 0 panics when the answer is empty.
\<close>

definition fetchAgentInfo ::
  "provider \<Rightarrow> (felt list \<Rightarrow> error + string) \<Rightarrow> AgentIndexer \<Rightarrow> felt
     \<Rightarrow> (error + AgentInfo) \<times> rpc_call list" where
  "fetchAgentInfo client ByteArrFeltToString i addr =
     (let call1 = (\<lparr>ContractAddress = ag_registryAddress i,
                     EntryPointSelector = isAgentRegisteredSelector,
                     Calldata = [addr]\<rparr>, WithBlockTag ''latest'')
      in case client call1 of
        Inl err \<Rightarrow> (Inl (Err (''is_agent_registered call failed: '' @ err)), [call1])
      | Inr isAgentRegisteredResp \<Rightarrow>
         (case isAgentRegisteredResp of
            [] \<Rightarrow> (Inl (Panic IndexOutOfRange), [call1])
          | r # rest \<Rightarrow>
             if r \<noteq> 1 then (Inl (Err ''agent not registered''), [call1])
             else
              (let call2 = (\<lparr>ContractAddress = addr,
                              EntryPointSelector = getNameSelector,
                              Calldata = []\<rparr>, WithBlockTag ''latest'')
               in case client call2 of
                 Inl err \<Rightarrow> (Inl (Err (''get_name call failed: '' @ err)), [call1, call2])
               | Inr nameResp \<Rightarrow>
                  (case ByteArrFeltToString nameResp of
                     Inl (Panic p) \<Rightarrow> (Inl (Panic p), [call1, call2])
                   | Inl (Err err) \<Rightarrow>
                       (Inl (Err (''parse get_name failed: '' @ err)), [call1, call2])
                   | Inr name \<Rightarrow>
                      (let call3 = (\<lparr>ContractAddress = addr,
                                      EntryPointSelector = getSystemPromptSelector,
                                      Calldata = []\<rparr>, WithBlockTag ''latest'')
                       in case client call3 of
                         Inl err \<Rightarrow>
                           (Inl (Err (''system_prompt call failed: '' @ err)), [call1, call2, call3])
                       | Inr getSystemPromptResp \<Rightarrow>
                          (case ByteArrFeltToString getSystemPromptResp of
                             Inl (Panic p) \<Rightarrow> (Inl (Panic p), [call1, call2, call3])
                           | Inl (Err err) \<Rightarrow>
                               (Inl (Err (''parse system_prompt failed: '' @ err)),
                                [call1, call2, call3])
                           | Inr systemPrompt \<Rightarrow>
                               (Inr \<lparr>Address = Some addr, Creator = None, Name = name,
                                     SystemPrompt = systemPrompt, PromptPrice = None,
                                     TokenAddress = None, EndTime = 0\<rparr>,
                                [call1, call2, call3])))))))"

definition GetOrFetchAgentInfo ::
  "provider \<Rightarrow> (felt list \<Rightarrow> error + string) \<Rightarrow> AgentIndexer \<Rightarrow> felt \<Rightarrow> u64
     \<Rightarrow> (error + AgentInfo) \<times> rpc_call list" where
  "GetOrFetchAgentInfo client ByteArrFeltToString i addr block =
     (case GetAgentInfo (ag_db i) (Bytes addr) of
        Some info \<Rightarrow> (Inr info, [])
      | None \<Rightarrow>
          if ag_GetLastIndexedBlock (ag_db i) \<ge> block
          then (Inl (Err ''agent not found''), [])
          else fetchAgentInfo client ByteArrFeltToString i addr)"

section \<open>The query service (service.go)\<close>









section \<open>The agent and usage projections side by side\<close>

text \<open>
  Modelled from the spec: the event loops that feed the usage database are missing from
  the sources covered here. By the component design the watcher requests events
  "filtered to the configured registry address and/or tracked agent addresses" and
  discards "events whose emitter address is not an expected source", and the data model
  states that registration precedes usage. A write to the usage database for an address
  is therefore applied only when the agent projection holds an \<open>AgentInfo\<close> for that
  address, and is discarded otherwise; the watermark update and the cache sweep carry
  no address and are always applied. An event delivered to the agent indexer changes
  only the agent projection. The usage side of the pair is the database, or the panic
  that stopped the process; nothing is applied after a panic.
\<close>

type_synonym projections =
  "AgentIndexer \<times> (go_panic + AgentUsageIndexerDatabaseInMemory)"

datatype projections_op = AgentEvent Event | UsageOp usage_op

text \<open>The agent address a usage operation writes under, if it has one.\<close>

fun usage_op_agent :: "usage_op \<Rightarrow> bytes32 option" where
  "usage_op_agent (OpStoreAgent addr) = Some addr"
| "usage_op_agent (OpPromptPaid now addr ev) = Some addr"
| "usage_op_agent (OpPromptConsumed now addr ev) = Some addr"
| "usage_op_agent (OpSetLastIndexedBlock block) = None"
| "usage_op_agent (OpDeleteExpired now) = None"

definition tracked :: "AgentIndexer \<Rightarrow> usage_op \<Rightarrow> bool" where
  "tracked ai op =
     (case usage_op_agent op of
        None \<Rightarrow> True
      | Some addr \<Rightarrow> GetAgentInfo (ag_db ai) addr \<noteq> None)"

fun projections_step :: "projections \<Rightarrow> projections_op \<Rightarrow> projections" where
  "projections_step (ai, Inl p) op = (ai, Inl p)"
| "projections_step (ai, Inr udb) (AgentEvent ev) = (fst (onAgentRegistered ai ev), Inr udb)"
| "projections_step (ai, Inr udb) (UsageOp op) =
     (if tracked ai op then (ai, usage_step udb op) else (ai, Inr udb))"

definition projections_run :: "projections \<Rightarrow> projections_op list \<Rightarrow> projections" where
  "projections_run s ops = foldl projections_step s ops"

definition projections_init :: "felt \<Rightarrow> u64 \<Rightarrow> u64 \<Rightarrow> projections" where
  "projections_init registry initialBlock maxP =
     (NewAgentIndexer registry, Inr (NewAgentUsageIndexerDatabaseInMemory initialBlock maxP))"

section \<open>Invariants\<close>

text \<open>No stored history is longer than the configured cap.\<close>

definition usage_bounded :: "AgentUsageIndexerDatabaseInMemory \<Rightarrow> bool" where
  "usage_bounded db =
     (\<forall>a u. usages db a = Some u \<longrightarrow> length (LatestPrompts u) \<le> unat (maxPrompts db))"

text \<open>Every address with a usage entry has an \<open>AgentInfo\<close>.\<close>

definition registration_precedes_usage :: "projections \<Rightarrow> bool" where
  "registration_precedes_usage s =
     (case snd s of
        Inl p \<Rightarrow> True
      | Inr udb \<Rightarrow> \<forall>x. GetAgentExists udb x \<longrightarrow> GetAgentInfo (ag_db (fst s)) x \<noteq> None)"

section \<open>Properties\<close>


subsection \<open>Usage database: the panic of \<open>make\<close> and the invariants of runs\<close>

lemma getOrCreateAgentUsage_in_range:
  "\<not> makesliceCapOutOfRange 8 (maxPrompts db + 1) \<Longrightarrow>
   getOrCreateAgentUsage db a =
     Inr (case GetAgentUsage db a of
            None \<Rightarrow> \<lparr>BreakAttempts = 0, LatestPrompts = [], IsDrained = False\<rparr>
          | Some stored \<Rightarrow> stored)"
  by (simp add: getOrCreateAgentUsage_def GetAgentUsage_def split: option.splits)

lemma getOrCreateAgentUsage_panics:
  "(getOrCreateAgentUsage db a = Inl p)
     = (p = MakeSliceCapOutOfRange \<and> GetAgentUsage db a = None
        \<and> makesliceCapOutOfRange 8 (maxPrompts db + 1))"
  by (auto simp: getOrCreateAgentUsage_def GetAgentUsage_def split: option.splits)

lemma StorePromptConsumedData_panics:
  "(StorePromptConsumedData now a ev db = Inl p)
     = (p = MakeSliceCapOutOfRange \<and> GetAgentUsage db a = None
        \<and> makesliceCapOutOfRange 8 (maxPrompts db + 1))"
  using getOrCreateAgentUsage_panics [of db a p]
  by (auto simp: StorePromptConsumedData_def split: sum.splits)

lemma StoreAgent_panics:
  "(StoreAgent a db = Inl p)
     = (p = MakeSliceCapOutOfRange \<and> GetAgentUsage db a = None
        \<and> makesliceCapOutOfRange 8 (maxPrompts db + 1))"
  using getOrCreateAgentUsage_panics [of db a p]
  by (auto simp: StoreAgent_def split: sum.splits)

text \<open>What one \<open>StorePromptConsumedData\<close> stores, written out.\<close>

lemma StorePromptConsumedData_result:
  fixes db now A ev before
  defines "hit \<equiv> lru_Peek now (promptCacheKey A (pc_PromptID ev)) (promptCache db)"
  defines "entry \<equiv> \<lparr>lp_PromptID = pc_PromptID ev,
                     lp_TweetID = (case hit of None \<Rightarrow> 0 | Some d \<Rightarrow> cd_TweetID d),
                     lp_Prompt = (case hit of None \<Rightarrow> [] | Some d \<Rightarrow> cd_Prompt d),
                     lp_IsSuccess = (Bytes (pc_DrainedTo ev) \<noteq> A),
                     lp_DrainedTo = (if Bytes (pc_DrainedTo ev) = A then 0 else pc_DrainedTo ev)\<rparr>"
  assumes got: "getOrCreateAgentUsage db A = Inr before"
  shows "StorePromptConsumedData now A ev db =
           Inr (db\<lparr>usages := (usages db)(A \<mapsto>
                       \<lparr>BreakAttempts = BreakAttempts before + 1,
                        LatestPrompts = (if length (LatestPrompts before) < unat (maxPrompts db)
                                         then LatestPrompts before @ [entry]
                                         else tl (LatestPrompts before @ [entry])),
                        IsDrained = (Bytes (pc_DrainedTo ev) \<noteq> A \<or> IsDrained before)\<rparr>),
                    promptCache := (case hit of
                                      None \<Rightarrow> promptCache db
                                    | Some d \<Rightarrow> lru_Remove (promptCacheKey A (pc_PromptID ev))
                                                 (promptCache db))\<rparr>,
                case hit of None \<Rightarrow> [(Error, ''prompt not found in cache'')] | Some d \<Rightarrow> [])"
  unfolding hit_def entry_def
  by (cases before; cases "lru_Peek now (promptCacheKey A (pc_PromptID ev)) (promptCache db)")
     (auto simp: StorePromptConsumedData_def got Let_def split: prod.splits)

lemma maxPrompts_usage_step: "usage_step db op = Inr db' \<Longrightarrow> maxPrompts db' = maxPrompts db"
  by (cases op)
     (auto simp: StoreAgent_def StorePromptPaidData_def StorePromptConsumedData_def
        SetLastIndexedBlock_def Let_def split: prod.splits option.splits sum.splits)

lemma maxPrompts_usage_run: "usage_run db ops = Inr db' \<Longrightarrow> maxPrompts db' = maxPrompts db"
  by (induction ops arbitrary: db) (auto split: sum.splits dest: maxPrompts_usage_step)

lemma usage_bounded_step:
  "usage_bounded db \<Longrightarrow> usage_step db op = Inr db' \<Longrightarrow> usage_bounded db'"
  by (cases op)
     (auto simp: usage_bounded_def StoreAgent_def StorePromptPaidData_def
        StorePromptConsumedData_def SetLastIndexedBlock_def Let_def getOrCreateAgentUsage_def
        split: prod.splits option.splits if_splits sum.splits)

lemma usage_bounded_run:
  "usage_bounded db \<Longrightarrow> usage_run db ops = Inr db' \<Longrightarrow> usage_bounded db'"
  by (induction ops arbitrary: db) (auto split: sum.splits dest: usage_bounded_step)

lemma usage_bounded_New: "usage_bounded (NewAgentUsageIndexerDatabaseInMemory b K)"
  by (simp add: usage_bounded_def NewAgentUsageIndexerDatabaseInMemory_def)

lemma stored_bounded:
  "usage_bounded db \<Longrightarrow>
   length (LatestPrompts (case GetAgentUsage db a of
            None \<Rightarrow> \<lparr>BreakAttempts = 0, LatestPrompts = [], IsDrained = False\<rparr>
          | Some stored \<Rightarrow> stored)) \<le> unat (maxPrompts db)"
  by (auto simp: usage_bounded_def GetAgentUsage_def split: option.splits)


lemma scenario_S4:
  "\<exists>db4. usage_run (NewAgentUsageIndexerDatabaseInMemory 0 3)
           [OpPromptConsumed 0 0xA1 \<lparr>pc_PromptID = 1, pc_DrainedTo = 0xA1\<rparr>,
            OpPromptConsumed 0 0xA1 \<lparr>pc_PromptID = 2, pc_DrainedTo = 0xA1\<rparr>,
            OpPromptConsumed 0 0xA1 \<lparr>pc_PromptID = 3, pc_DrainedTo = 0xA1\<rparr>,
            OpPromptConsumed 0 0xA1 \<lparr>pc_PromptID = 4, pc_DrainedTo = 0xA1\<rparr>] = Inr db4
        \<and> map lp_PromptID (LatestPrompts (the (GetAgentUsage db4 0xA1))) = [2, 3, 4]"
  by (simp add: NewAgentUsageIndexerDatabaseInMemory_def StorePromptConsumedData_def
        getOrCreateAgentUsage_def makesliceCapOutOfRange_def maxAlloc_def
        GetAgentUsage_def lru_Peek_def Bytes_def)

text \<open>
  C1. In every state the database can reach, with a cap whose history \<open>make\<close> can
  allocate, applying a \<open>PromptConsumed\<close> event for agent \<open>A\<close> raises the stored
  \<open>BreakAttempts\<close> of \<open>A\<close> by one (in \<^verbatim>\<open>uint64\<close>; a new agent starts from 0), records the
  attempt as successful exactly when the drain address differs from \<open>A\<close> (a failed
  attempt carries the zero drain address), sets \<open>IsDrained\<close> on success and keeps it
  otherwise, and appends the entry to the stored \<open>LatestPrompts\<close>, dropping the oldest
  entry so that at most \<open>maxPrompts\<close> entries remain; the usage of every other agent is
  untouched. Four events with prompt ids 1 to 4 under a cap of 3 leave the ids 2, 3, 4.
\<close>

theorem StorePromptConsumedData_records_attempt:
  "(usage_run (NewAgentUsageIndexerDatabaseInMemory b K) ops = Inr db
      \<and> \<not> makesliceCapOutOfRange 8 (K + 1) \<longrightarrow>
       (let before = (case GetAgentUsage db A of
                        None \<Rightarrow> \<lparr>BreakAttempts = 0, LatestPrompts = [], IsDrained = False\<rparr>
                      | Some stored \<Rightarrow> stored);
            succeeded = (Bytes (pc_DrainedTo ev) \<noteq> A)
        in \<exists>db' logs after entry.
             StorePromptConsumedData now A ev db = Inr (db', logs)
           \<and> GetAgentUsage db' A = Some after
           \<and> BreakAttempts after = BreakAttempts before + 1
           \<and> lp_PromptID entry = pc_PromptID ev
           \<and> lp_IsSuccess entry = succeeded
           \<and> lp_DrainedTo entry = (if succeeded then pc_DrainedTo ev else 0)
           \<and> IsDrained after = (succeeded \<or> IsDrained before)
           \<and> LatestPrompts after =
                (if length (LatestPrompts before) < unat K then LatestPrompts before @ [entry]
                 else tl (LatestPrompts before @ [entry]))
           \<and> length (LatestPrompts after) \<le> unat K
           \<and> (\<forall>B. B \<noteq> A \<longrightarrow> GetAgentUsage db' B = GetAgentUsage db B)))
   \<and> (\<exists>db4. usage_run (NewAgentUsageIndexerDatabaseInMemory 0 3)
           [OpPromptConsumed 0 0xA1 \<lparr>pc_PromptID = 1, pc_DrainedTo = 0xA1\<rparr>,
            OpPromptConsumed 0 0xA1 \<lparr>pc_PromptID = 2, pc_DrainedTo = 0xA1\<rparr>,
            OpPromptConsumed 0 0xA1 \<lparr>pc_PromptID = 3, pc_DrainedTo = 0xA1\<rparr>,
            OpPromptConsumed 0 0xA1 \<lparr>pc_PromptID = 4, pc_DrainedTo = 0xA1\<rparr>] = Inr db4
          \<and> map lp_PromptID (LatestPrompts (the (GetAgentUsage db4 0xA1))) = [2, 3, 4])"
proof (intro conjI impI)
  assume a: "usage_run (NewAgentUsageIndexerDatabaseInMemory b K) ops = Inr db
      \<and> \<not> makesliceCapOutOfRange 8 (K + 1)"
  define before where "before = (case GetAgentUsage db A of
                        None \<Rightarrow> \<lparr>BreakAttempts = 0, LatestPrompts = [], IsDrained = False\<rparr>
                      | Some stored \<Rightarrow> stored)"
  from a have run: "usage_run (NewAgentUsageIndexerDatabaseInMemory b K) ops = Inr db"
    and cap: "\<not> makesliceCapOutOfRange 8 (K + 1)" by simp_all
  have K: "maxPrompts db = K"
    using maxPrompts_usage_run [OF run]
    by (simp add: NewAgentUsageIndexerDatabaseInMemory_def)
  have "usage_bounded db"
    using usage_bounded_run [OF usage_bounded_New run] .
  then have len: "length (LatestPrompts before) \<le> unat K"
    unfolding before_def using stored_bounded [of db A] K by simp
  from cap K have got: "getOrCreateAgentUsage db A = Inr before"
    unfolding before_def by (simp add: getOrCreateAgentUsage_in_range)
  note st = StorePromptConsumedData_result [OF got, of now ev, unfolded K]
  have "\<exists>db' logs after entry.
             StorePromptConsumedData now A ev db = Inr (db', logs)
           \<and> GetAgentUsage db' A = Some after
           \<and> BreakAttempts after = BreakAttempts before + 1
           \<and> lp_PromptID entry = pc_PromptID ev
           \<and> lp_IsSuccess entry = (Bytes (pc_DrainedTo ev) \<noteq> A)
           \<and> lp_DrainedTo entry
                = (if Bytes (pc_DrainedTo ev) \<noteq> A then pc_DrainedTo ev else 0)
           \<and> IsDrained after = (Bytes (pc_DrainedTo ev) \<noteq> A \<or> IsDrained before)
           \<and> LatestPrompts after =
                (if length (LatestPrompts before) < unat K then LatestPrompts before @ [entry]
                 else tl (LatestPrompts before @ [entry]))
           \<and> length (LatestPrompts after) \<le> unat K
           \<and> (\<forall>B. B \<noteq> A \<longrightarrow> GetAgentUsage db' B = GetAgentUsage db B)"
    unfolding st
    apply (intro exI conjI)
             apply (rule refl)
            apply (simp add: GetAgentUsage_def)
    using len apply (simp_all add: GetAgentUsage_def)
    done
  then show "(let before = (case GetAgentUsage db A of
                        None \<Rightarrow> \<lparr>BreakAttempts = 0, LatestPrompts = [], IsDrained = False\<rparr>
                      | Some stored \<Rightarrow> stored);
            succeeded = (Bytes (pc_DrainedTo ev) \<noteq> A)
        in \<exists>db' logs after entry.
             StorePromptConsumedData now A ev db = Inr (db', logs)
           \<and> GetAgentUsage db' A = Some after
           \<and> BreakAttempts after = BreakAttempts before + 1
           \<and> lp_PromptID entry = pc_PromptID ev
           \<and> lp_IsSuccess entry = succeeded
           \<and> lp_DrainedTo entry = (if succeeded then pc_DrainedTo ev else 0)
           \<and> IsDrained after = (succeeded \<or> IsDrained before)
           \<and> LatestPrompts after =
                (if length (LatestPrompts before) < unat K then LatestPrompts before @ [entry]
                 else tl (LatestPrompts before @ [entry]))
           \<and> length (LatestPrompts after) \<le> unat K
           \<and> (\<forall>B. B \<noteq> A \<longrightarrow> GetAgentUsage db' B = GetAgentUsage db B))"
    unfolding Let_def before_def [symmetric] by simp
next
  show "\<exists>db4. usage_run (NewAgentUsageIndexerDatabaseInMemory 0 3)
           [OpPromptConsumed 0 0xA1 \<lparr>pc_PromptID = 1, pc_DrainedTo = 0xA1\<rparr>,
            OpPromptConsumed 0 0xA1 \<lparr>pc_PromptID = 2, pc_DrainedTo = 0xA1\<rparr>,
            OpPromptConsumed 0 0xA1 \<lparr>pc_PromptID = 3, pc_DrainedTo = 0xA1\<rparr>,
            OpPromptConsumed 0 0xA1 \<lparr>pc_PromptID = 4, pc_DrainedTo = 0xA1\<rparr>] = Inr db4
          \<and> map lp_PromptID (LatestPrompts (the (GetAgentUsage db4 0xA1))) = [2, 3, 4]"
    by (rule scenario_S4)
qed

theorem StorePromptConsumedData_records_attempt_witness:
  "usage_run (NewAgentUsageIndexerDatabaseInMemory 0 3) [OpStoreAgent 0xA1]
     = Inr (NewAgentUsageIndexerDatabaseInMemory 0 3
              \<lparr>usages := [0xA1 \<mapsto> \<lparr>BreakAttempts = 0, LatestPrompts = [], IsDrained = False\<rparr>]\<rparr>)
   \<and> \<not> makesliceCapOutOfRange 8 (3 + 1)
   \<and> (\<exists>db' logs after entry.
         StorePromptConsumedData 0 0xA1 \<lparr>pc_PromptID = 1, pc_DrainedTo = 0xBEEF\<rparr>
           (NewAgentUsageIndexerDatabaseInMemory 0 3
              \<lparr>usages := [0xA1 \<mapsto> \<lparr>BreakAttempts = 0, LatestPrompts = [], IsDrained = False\<rparr>]\<rparr>)
           = Inr (db', logs)
       \<and> GetAgentUsage db' 0xA1 = Some after
       \<and> BreakAttempts after = 1 \<and> lp_PromptID entry = 1 \<and> lp_IsSuccess entry
       \<and> lp_DrainedTo entry = 0xBEEF \<and> IsDrained after \<and> LatestPrompts after = [entry])"
proof -
  let ?db = "NewAgentUsageIndexerDatabaseInMemory 0 3
              \<lparr>usages := [0xA1 \<mapsto> \<lparr>BreakAttempts = 0, LatestPrompts = [], IsDrained = False\<rparr>]\<rparr>"
  have cap: "\<not> makesliceCapOutOfRange 8 (3 + 1)"
    by (simp add: makesliceCapOutOfRange_def maxAlloc_def)
  have run: "usage_run (NewAgentUsageIndexerDatabaseInMemory 0 3) [OpStoreAgent 0xA1] = Inr ?db"
    by (simp add: StoreAgent_def getOrCreateAgentUsage_def makesliceCapOutOfRange_def
          maxAlloc_def NewAgentUsageIndexerDatabaseInMemory_def)
  have stored: "GetAgentUsage ?db 0xA1
                  = Some \<lparr>BreakAttempts = 0, LatestPrompts = [], IsDrained = False\<rparr>"
    by (simp add: GetAgentUsage_def)
  from StorePromptConsumedData_records_attempt
         [where b = 0 and K = 3 and ops = "[OpStoreAgent 0xA1]" and db = ?db and A = "0xA1"
            and now = 0 and ev = "\<lparr>pc_PromptID = 1, pc_DrainedTo = 0xBEEF\<rparr>"]
       run cap
  have "\<exists>db' logs after entry.
         StorePromptConsumedData 0 0xA1 \<lparr>pc_PromptID = 1, pc_DrainedTo = 0xBEEF\<rparr> ?db
           = Inr (db', logs)
       \<and> GetAgentUsage db' 0xA1 = Some after
       \<and> BreakAttempts after = 1 \<and> lp_PromptID entry = 1 \<and> lp_IsSuccess entry
       \<and> lp_DrainedTo entry = 0xBEEF \<and> IsDrained after \<and> LatestPrompts after = [entry]"
    by (simp add: Let_def stored Bytes_def) blast
  with run cap show ?thesis by blast
qed


subsection \<open>The cache\<close>

lemma lru_Peek_Add:
  "lru_Peek now k (lru_Add cap ttl t0 k v c) = (if t0 + ttl < now then None else Some v)"
proof (cases "k \<in> set (map Key c)")
  case True
  then show ?thesis by (simp add: lru_Peek_def lru_Add_def)
next
  case False
  show ?thesis
  proof (cases "cap > 0 \<and> length (\<lparr>Key = k, Value = v, ExpiresAt = t0 + ttl\<rparr> # c) > cap")
    case True
    then have "c \<noteq> []" by auto
    with True False show ?thesis by (simp add: lru_Peek_def lru_Add_def Let_def)
  next
    case no: False
    with False show ?thesis by (auto simp add: lru_Peek_def lru_Add_def Let_def)
  qed
qed

lemma lru_Peek_Remove: "lru_Peek now k (lru_Remove k c) = None"
proof -
  have "find (\<lambda>e. Key e = k) (filter (\<lambda>e. Key e \<noteq> k) c) = None"
    by (simp add: find_None_iff)
  then show ?thesis by (simp add: lru_Peek_def lru_Remove_def)
qed

lemma promptCache_New: "promptCache (NewAgentUsageIndexerDatabaseInMemory b K) = []"
  by (simp add: NewAgentUsageIndexerDatabaseInMemory_def)

lemma lru_Peek_Nil: "lru_Peek now k [] = None"
  by (simp add: lru_Peek_def)

lemma Peek_after_Paid:
  "lru_Peek now (promptCacheKey A (pp_PromptID p)) (promptCache (StorePromptPaidData t0 A p db))
     = (if t0 + agentUsageIndexerPromptCacheTTL < now then None
        else Some \<lparr>cd_TweetID = pp_TweetID p, cd_Prompt = pp_Prompt p\<rparr>)"
  by (simp add: StorePromptPaidData_def lru_Peek_Add)

lemma StorePromptPaidData_usages:
  "usages (StorePromptPaidData t0 A p db) = usages db"
  "maxPrompts (StorePromptPaidData t0 A p db) = maxPrompts db"
  "GetAgentUsage (StorePromptPaidData t0 A p db) = GetAgentUsage db"
  by (simp_all add: StorePromptPaidData_def GetAgentUsage_def fun_eq_iff)

lemma scenario_S3:
  assumes "0 < K" and "\<not> makesliceCapOutOfRange 8 (K + 1)"
  shows "(\<exists>db'. StorePromptConsumedData now 0xA1 \<lparr>pc_PromptID = 42, pc_DrainedTo = 0xA1\<rparr>
                  (NewAgentUsageIndexerDatabaseInMemory b K)
                = Inr (db', [(Error, ''prompt not found in cache'')])
            \<and> GetAgentUsage db' 0xA1
                = Some \<lparr>BreakAttempts = 1,
                        LatestPrompts = [\<lparr>lp_PromptID = 42, lp_TweetID = 0, lp_Prompt = [],
                                          lp_IsSuccess = False, lp_DrainedTo = 0\<rparr>],
                        IsDrained = False\<rparr>)"
proof -
  let ?db = "NewAgentUsageIndexerDatabaseInMemory b K"
  have got: "getOrCreateAgentUsage ?db 0xA1 = Inr \<lparr>BreakAttempts = 0, LatestPrompts = [], IsDrained = False\<rparr>"
    using assms(2)
    by (simp add: getOrCreateAgentUsage_def NewAgentUsageIndexerDatabaseInMemory_def)
  have miss: "lru_Peek now (promptCacheKey 0xA1 42) (promptCache ?db) = None"
    by (simp add: promptCache_New lru_Peek_Nil)
  have K: "maxPrompts ?db = K" by (simp add: NewAgentUsageIndexerDatabaseInMemory_def)
  from assms(1) have pos: "0 < unat K" by (simp add: unat_gt_0)
  show ?thesis
    using StorePromptConsumedData_result
            [OF got, of now "\<lparr>pc_PromptID = 42, pc_DrainedTo = 0xA1\<rparr>"] pos
    by (simp add: miss K GetAgentUsage_def Bytes_def)
qed

text \<open>
  C5. A \<open>PromptConsumed\<close> event whose key has no live cache entry is still recorded
  (the cap being one whose history \<open>make\<close> can allocate): the stored \<open>BreakAttempts\<close>
  rises by one, the entry appended to the stored history has tweet id 0 and the empty
  prompt, and one error line is logged. The cache has no live entry when nothing was
  paid (a fresh database) or when the paid entry is older than the TTL. A lone
  \<open>PromptConsumed(agent = A, promptId = 42, drainedTo = A)\<close> on a fresh database with a
  positive cap leaves exactly the entry \<open>{42, 0, "", false, 0}\<close>.
\<close>

theorem StorePromptConsumedData_cache_miss:
  "(lru_Peek now (promptCacheKey A (pc_PromptID ev)) (promptCache db) = None
      \<and> \<not> makesliceCapOutOfRange 8 (maxPrompts db + 1) \<longrightarrow>
       (let before = (case GetAgentUsage db A of
                        None \<Rightarrow> \<lparr>BreakAttempts = 0, LatestPrompts = [], IsDrained = False\<rparr>
                      | Some stored \<Rightarrow> stored)
        in \<exists>db' after entry.
             StorePromptConsumedData now A ev db
               = Inr (db', [(Error, ''prompt not found in cache'')])
           \<and> GetAgentUsage db' A = Some after
           \<and> BreakAttempts after = BreakAttempts before + 1
           \<and> lp_PromptID entry = pc_PromptID ev
           \<and> lp_TweetID entry = 0
           \<and> lp_Prompt entry = []
           \<and> LatestPrompts after = (if length (LatestPrompts before) < unat (maxPrompts db)
                  then LatestPrompts before @ [entry]
                  else tl (LatestPrompts before @ [entry]))))
   \<and> lru_Peek now (promptCacheKey A (pc_PromptID ev))
        (promptCache (NewAgentUsageIndexerDatabaseInMemory b K)) = None
   \<and> (t0 + agentUsageIndexerPromptCacheTTL < now \<longrightarrow>
        lru_Peek now (promptCacheKey A (pp_PromptID p))
          (promptCache (StorePromptPaidData t0 A p db)) = None)
   \<and> (0 < K \<and> \<not> makesliceCapOutOfRange 8 (K + 1) \<longrightarrow>
        (\<exists>db'. StorePromptConsumedData now 0xA1 \<lparr>pc_PromptID = 42, pc_DrainedTo = 0xA1\<rparr>
                  (NewAgentUsageIndexerDatabaseInMemory b K)
                = Inr (db', [(Error, ''prompt not found in cache'')])
            \<and> GetAgentUsage db' 0xA1
                = Some \<lparr>BreakAttempts = 1,
                        LatestPrompts = [\<lparr>lp_PromptID = 42, lp_TweetID = 0, lp_Prompt = [],
                                          lp_IsSuccess = False, lp_DrainedTo = 0\<rparr>],
                        IsDrained = False\<rparr>))"
proof (intro conjI impI)
  assume a: "lru_Peek now (promptCacheKey A (pc_PromptID ev)) (promptCache db) = None
      \<and> \<not> makesliceCapOutOfRange 8 (maxPrompts db + 1)"
  then have miss: "lru_Peek now (promptCacheKey A (pc_PromptID ev)) (promptCache db) = None"
    and cap: "\<not> makesliceCapOutOfRange 8 (maxPrompts db + 1)" by simp_all
  define before where "before = (case GetAgentUsage db A of
                        None \<Rightarrow> \<lparr>BreakAttempts = 0, LatestPrompts = [], IsDrained = False\<rparr>
                      | Some stored \<Rightarrow> stored)"
  from cap have got: "getOrCreateAgentUsage db A = Inr before"
    unfolding before_def by (rule getOrCreateAgentUsage_in_range)
  note st = StorePromptConsumedData_result [OF got, of now ev, unfolded miss]
  have "\<exists>db' after entry.
             StorePromptConsumedData now A ev db
               = Inr (db', [(Error, ''prompt not found in cache'')])
           \<and> GetAgentUsage db' A = Some after
           \<and> BreakAttempts after = BreakAttempts before + 1
           \<and> lp_PromptID entry = pc_PromptID ev
           \<and> lp_TweetID entry = 0
           \<and> lp_Prompt entry = []
           \<and> LatestPrompts after = (if length (LatestPrompts before) < unat (maxPrompts db)
                  then LatestPrompts before @ [entry]
                  else tl (LatestPrompts before @ [entry]))"
    unfolding st
    apply (intro exI conjI)
          apply simp
         apply (simp add: GetAgentUsage_def)
        apply simp_all
    done
  then show "(let before = (case GetAgentUsage db A of
                        None \<Rightarrow> \<lparr>BreakAttempts = 0, LatestPrompts = [], IsDrained = False\<rparr>
                      | Some stored \<Rightarrow> stored)
        in \<exists>db' after entry.
             StorePromptConsumedData now A ev db
               = Inr (db', [(Error, ''prompt not found in cache'')])
           \<and> GetAgentUsage db' A = Some after
           \<and> BreakAttempts after = BreakAttempts before + 1
           \<and> lp_PromptID entry = pc_PromptID ev
           \<and> lp_TweetID entry = 0
           \<and> lp_Prompt entry = []
           \<and> LatestPrompts after = (if length (LatestPrompts before) < unat (maxPrompts db)
                  then LatestPrompts before @ [entry]
                  else tl (LatestPrompts before @ [entry])))"
    unfolding Let_def before_def [symmetric] .
next
  show "lru_Peek now (promptCacheKey A (pc_PromptID ev))
        (promptCache (NewAgentUsageIndexerDatabaseInMemory b K)) = None"
    by (simp add: promptCache_New lru_Peek_Nil)
next
  assume "t0 + agentUsageIndexerPromptCacheTTL < now"
  then show "lru_Peek now (promptCacheKey A (pp_PromptID p))
          (promptCache (StorePromptPaidData t0 A p db)) = None"
    by (simp add: Peek_after_Paid)
next
  assume "0 < K \<and> \<not> makesliceCapOutOfRange 8 (K + 1)"
  then show "(\<exists>db'. StorePromptConsumedData now 0xA1 \<lparr>pc_PromptID = 42, pc_DrainedTo = 0xA1\<rparr>
                  (NewAgentUsageIndexerDatabaseInMemory b K)
                = Inr (db', [(Error, ''prompt not found in cache'')])
            \<and> GetAgentUsage db' 0xA1
                = Some \<lparr>BreakAttempts = 1,
                        LatestPrompts = [\<lparr>lp_PromptID = 42, lp_TweetID = 0, lp_Prompt = [],
                                          lp_IsSuccess = False, lp_DrainedTo = 0\<rparr>],
                        IsDrained = False\<rparr>)"
    using scenario_S3 by blast
qed


theorem StorePromptConsumedData_cache_miss_witness:
  "lru_Peek 1800000000001 (promptCacheKey 0xA1 42) (promptCache (NewAgentUsageIndexerDatabaseInMemory 0 10)) = None
   \<and> \<not> makesliceCapOutOfRange 8 (maxPrompts (NewAgentUsageIndexerDatabaseInMemory 0 10) + 1)
   \<and> (\<exists>db' after entry.
          StorePromptConsumedData 1800000000001 0xA1 \<lparr>pc_PromptID = 42, pc_DrainedTo = 0xA1\<rparr> (NewAgentUsageIndexerDatabaseInMemory 0 10)
            = Inr (db', [(Error, ''prompt not found in cache'')])
        \<and> GetAgentUsage db' 0xA1 = Some after
        \<and> BreakAttempts after = 1 \<and> lp_PromptID entry = 42 \<and> lp_TweetID entry = 0
        \<and> lp_Prompt entry = [] \<and> LatestPrompts after = [entry])
   \<and> 0 + agentUsageIndexerPromptCacheTTL < 1800000000001
   \<and> lru_Peek 1800000000001 (promptCacheKey 0xA1 42)
        (promptCache (StorePromptPaidData 0 0xA1
           \<lparr>pp_PromptID = 42, pp_TweetID = 555, pp_Prompt = ''hi''\<rparr> (NewAgentUsageIndexerDatabaseInMemory 0 10))) = None
   \<and> (0 :: u64) < 10
   \<and> \<not> makesliceCapOutOfRange 8 (10 + 1)
   \<and> (\<exists>db'. StorePromptConsumedData 1800000000001 0xA1 \<lparr>pc_PromptID = 42, pc_DrainedTo = 0xA1\<rparr>
                  (NewAgentUsageIndexerDatabaseInMemory 0 10)
                = Inr (db', [(Error, ''prompt not found in cache'')])
            \<and> GetAgentUsage db' 0xA1
                = Some \<lparr>BreakAttempts = 1,
                        LatestPrompts = [\<lparr>lp_PromptID = 42, lp_TweetID = 0, lp_Prompt = [],
                                          lp_IsSuccess = False, lp_DrainedTo = 0\<rparr>],
                        IsDrained = False\<rparr>)"
proof -
  have miss: "lru_Peek 1800000000001 (promptCacheKey 0xA1 42) (promptCache (NewAgentUsageIndexerDatabaseInMemory 0 10)) = None"
    by (simp add: NewAgentUsageIndexerDatabaseInMemory_def lru_Peek_def)
  have cap: "\<not> makesliceCapOutOfRange 8 (10 + 1)"
    by (simp add: makesliceCapOutOfRange_def maxAlloc_def)
  have K: "maxPrompts (NewAgentUsageIndexerDatabaseInMemory 0 10) = 10"
    by (simp add: NewAgentUsageIndexerDatabaseInMemory_def)
  have ttl: "0 + agentUsageIndexerPromptCacheTTL < 1800000000001"
    by (simp add: agentUsageIndexerPromptCacheTTL_def)
  have pos: "(0 :: u64) < 10" by simp
  have fresh: "GetAgentUsage (NewAgentUsageIndexerDatabaseInMemory 0 10) 0xA1 = None"
    by (simp add: GetAgentUsage_def NewAgentUsageIndexerDatabaseInMemory_def)
  note th = StorePromptConsumedData_cache_miss
            [where now = 1800000000001 and A = "0xA1"
               and ev = "\<lparr>pc_PromptID = 42, pc_DrainedTo = 0xA1\<rparr>"
               and db = "(NewAgentUsageIndexerDatabaseInMemory 0 10)"
               and b = 0 and K = 10 and ?t0.0 = 0
               and p = "\<lparr>pp_PromptID = 42, pp_TweetID = 555, pp_Prompt = ''hi''\<rparr>"]
  from th miss cap K have rec: "\<exists>db' after entry.
          StorePromptConsumedData 1800000000001 0xA1 \<lparr>pc_PromptID = 42, pc_DrainedTo = 0xA1\<rparr> (NewAgentUsageIndexerDatabaseInMemory 0 10)
            = Inr (db', [(Error, ''prompt not found in cache'')])
        \<and> GetAgentUsage db' 0xA1 = Some after
        \<and> BreakAttempts after = 1 \<and> lp_PromptID entry = 42 \<and> lp_TweetID entry = 0
        \<and> lp_Prompt entry = [] \<and> LatestPrompts after = [entry]"
    by (simp add: Let_def fresh)
  from th ttl have expired: "lru_Peek 1800000000001 (promptCacheKey 0xA1 42)
        (promptCache (StorePromptPaidData 0 0xA1
           \<lparr>pp_PromptID = 42, pp_TweetID = 555, pp_Prompt = ''hi''\<rparr> (NewAgentUsageIndexerDatabaseInMemory 0 10))) = None"
    by simp
  from th pos cap have s3: "(\<exists>db'. StorePromptConsumedData 1800000000001 0xA1 \<lparr>pc_PromptID = 42, pc_DrainedTo = 0xA1\<rparr>
                  (NewAgentUsageIndexerDatabaseInMemory 0 10)
                = Inr (db', [(Error, ''prompt not found in cache'')])
            \<and> GetAgentUsage db' 0xA1
                = Some \<lparr>BreakAttempts = 1,
                        LatestPrompts = [\<lparr>lp_PromptID = 42, lp_TweetID = 0, lp_Prompt = [],
                                          lp_IsSuccess = False, lp_DrainedTo = 0\<rparr>],
                        IsDrained = False\<rparr>)"
    by simp
  from miss cap K rec ttl expired pos s3 show ?thesis by simp
qed

subsection \<open>Cache keys\<close>

text \<open>
  The key determines the agent address and the prompt id: the address takes the first
  32 characters, whatever bytes it has, and the decimal rendering of the id is
  one-to-one.
\<close>


lemma length_rawBytes: "length (rawBytes a) = 32"
  by (simp add: rawBytes_def)

lemma decimal_nonempty: "decimal n \<noteq> []"
  by (subst decimal.simps) simp

lemma last_decimal: "of_char (last (decimal n)) = 48 + n mod 10"
proof (cases "n < 10")
  case True
  then have "decimal n = [char_of (48 + n)]" by (subst decimal.simps) simp
  moreover have "(48 + n) mod 256 = 48 + n" using True by simp
  ultimately show ?thesis using True by (simp add: of_char_of)
next
  case False
  then have "decimal n = decimal (n div 10) @ [char_of (48 + n mod 10)]"
    by (subst decimal.simps) simp
  moreover have "(48 + n mod 10) mod 256 = 48 + n mod 10"
    by (rule mod_less) (simp add: less_trans [OF add_strict_left_mono [OF mod_less_divisor]])
  ultimately show ?thesis by (simp add: of_char_of)
qed

lemma butlast_decimal: "butlast (decimal n) = (if n < 10 then [] else decimal (n div 10))"
  by (subst decimal.simps) simp

lemma decimal_inject: "decimal m = decimal n \<Longrightarrow> m = n"
proof (induction m arbitrary: n rule: decimal.induct)
  case (1 m)
  from "1.prems" have "(48 + m mod 10 :: nat) = 48 + n mod 10"
    using last_decimal [of m] last_decimal [of n] by simp
  then have l: "m mod 10 = n mod 10" by simp
  from "1.prems" have b: "butlast (decimal m) = butlast (decimal n)" by simp
  show ?case
  proof (cases "m < 10")
    case True
    with b have "n < 10"
      using decimal_nonempty [of "n div 10"]
      by (auto simp: butlast_decimal split: if_splits)
    with True l show ?thesis by simp
  next
    case False
    with b have n: "\<not> n < 10" and d: "decimal (m div 10) = decimal (n div 10)"
      using decimal_nonempty [of "m div 10"]
      by (auto simp: butlast_decimal split: if_splits)
    from "1.IH" [OF False d] have "m div 10 = n div 10" .
    with l show ?thesis
      by (metis div_mult_mod_eq)
  qed
qed

lemma rawBytes_nth:
  "i < 32 \<Longrightarrow> rawBytes a ! i = char_of (drop_bit (8 * (31 - i)) (unat a))"
  by (simp add: rawBytes_def)

lemma rawBytes_inject: "rawBytes a = rawBytes b \<Longrightarrow> a = b"
proof (rule bit_word_eqI)
  fix n
  assume eq: "rawBytes a = rawBytes b" and "n < LENGTH(256)"
  then have n: "n < 256" by simp
  define i where "i = 31 - n div 8"
  have i: "i < 32" and k: "8 * (31 - i) + n mod 8 = n"
    using n by (simp_all add: i_def)
  from eq i have "char_of (drop_bit (8 * (31 - i)) (unat a))
                   = (char_of (drop_bit (8 * (31 - i)) (unat b)) :: char)"
    using rawBytes_nth [of i a] rawBytes_nth [of i b] by simp
  then have "take_bit 8 (drop_bit (8 * (31 - i)) (unat a))
               = take_bit 8 (drop_bit (8 * (31 - i)) (unat b))"
    by (simp add: char_of_eq_iff of_char_of take_bit_eq_mod)
  then have "bit (take_bit 8 (drop_bit (8 * (31 - i)) (unat a))) (n mod 8)
               = bit (take_bit 8 (drop_bit (8 * (31 - i)) (unat b))) (n mod 8)"
    by (rule arg_cong)
  then have "bit (unat a) (8 * (31 - i) + n mod 8) = bit (unat b) (8 * (31 - i) + n mod 8)"
    by (simp only: bit_take_bit_iff bit_drop_bit_eq) simp
  then show "bit a n = bit b n"
    unfolding k by (simp add: bit_unsigned_iff)
qed

lemma promptCacheKey_inject:
  "(promptCacheKey a p = promptCacheKey b q) = (a = b \<and> p = q)"
proof
  assume "promptCacheKey a p = promptCacheKey b q"
  then have "rawBytes a = rawBytes b \<and> decimal (unat p) = decimal (unat q)"
    by (simp add: promptCacheKey_def length_rawBytes)
  then have "a = b" and "unat p = unat q"
    by (auto dest: rawBytes_inject decimal_inject)
  then show "a = b \<and> p = q"
    by (simp add: word_unat_eq_iff)
qed simp

lemma lru_Peek_Remove_other: "k \<noteq> k' \<Longrightarrow> lru_Peek now k (lru_Remove k' c) = lru_Peek now k c"
proof -
  assume "k \<noteq> k'"
  then have "find (\<lambda>e. Key e = k) (filter (\<lambda>e. Key e \<noteq> k') c) = find (\<lambda>e. Key e = k) c"
    by (induction c) auto
  then show ?thesis by (simp add: lru_Peek_def lru_Remove_def)
qed


lemma StorePromptConsumedData_other_key:
  assumes ne: "(A', pc_PromptID ev) \<noteq> (A, pid)"
      and res: "StorePromptConsumedData now A' ev db = Inr (db', logs)"
  shows "lru_Peek later (promptCacheKey A pid) (promptCache db')
         = lru_Peek later (promptCacheKey A pid) (promptCache db)"
proof -
  from ne have k: "promptCacheKey A pid \<noteq> promptCacheKey A' (pc_PromptID ev)"
    by (auto simp: promptCacheKey_inject)
  from res obtain before where got: "getOrCreateAgentUsage db A' = Inr before"
    by (auto simp: StorePromptConsumedData_def split: sum.splits)
  from StorePromptConsumedData_result [OF got, of now ev] res
  have "promptCache db'
          = (case lru_Peek now (promptCacheKey A' (pc_PromptID ev)) (promptCache db) of
               None \<Rightarrow> promptCache db
             | Some d \<Rightarrow> lru_Remove (promptCacheKey A' (pc_PromptID ev)) (promptCache db))"
    by auto
  then show ?thesis
    by (simp add: lru_Peek_Remove_other [OF k] split: option.splits)
qed


text \<open>
  C4. A \<open>PromptPaid\<close> event followed by a \<open>PromptConsumed\<close> event with the same agent and
  prompt id, the paid entry still being live in the cache, yields a history entry whose
  tweet id and prompt are the paid event's, appended to the history stored for the agent;
  nothing is logged, and the cache entry is gone afterwards, so no later \<open>PromptConsumed\<close>
  finds it. A paid entry is live until the TTL has passed, and a \<open>PromptConsumed\<close> event
  for another agent or another prompt id leaves it in the cache. The history capacity is
  one for which \<open>make\<close> does not panic; \<open>StorePromptConsumedData_panics\<close> is the other case.
\<close>

theorem prompt_cache_round_trip:
  "(lru_Peek now (promptCacheKey A (pc_PromptID c)) (promptCache db)
       = Some \<lparr>cd_TweetID = pp_TweetID p, cd_Prompt = pp_Prompt p\<rparr>
    \<and> \<not> makesliceCapOutOfRange 8 (maxPrompts db + 1) \<longrightarrow>
      (let before = (case GetAgentUsage db A of
                       None \<Rightarrow> \<lparr>BreakAttempts = 0, LatestPrompts = [], IsDrained = False\<rparr>
                     | Some stored \<Rightarrow> stored)
       in \<exists>db' after entry.
            StorePromptConsumedData now A c db = Inr (db', [])
          \<and> GetAgentUsage db' A = Some after
          \<and> lp_PromptID entry = pc_PromptID c
          \<and> lp_TweetID entry = pp_TweetID p
          \<and> lp_Prompt entry = pp_Prompt p
          \<and> LatestPrompts after =
               (if length (LatestPrompts before) < unat (maxPrompts db)
                then LatestPrompts before @ [entry]
                else tl (LatestPrompts before @ [entry]))
          \<and> (\<forall>later. lru_Peek later (promptCacheKey A (pc_PromptID c)) (promptCache db') = None)))
   \<and> (now \<le> t0 + agentUsageIndexerPromptCacheTTL \<longrightarrow>
        lru_Peek now (promptCacheKey A (pp_PromptID p))
          (promptCache (StorePromptPaidData t0 A p db))
        = Some \<lparr>cd_TweetID = pp_TweetID p, cd_Prompt = pp_Prompt p\<rparr>)
   \<and> (pc_PromptID c = pp_PromptID p \<and> now \<le> t0 + agentUsageIndexerPromptCacheTTL
      \<and> \<not> makesliceCapOutOfRange 8 (maxPrompts db + 1) \<longrightarrow>
      (let before = (case GetAgentUsage db A of
                       None \<Rightarrow> \<lparr>BreakAttempts = 0, LatestPrompts = [], IsDrained = False\<rparr>
                     | Some stored \<Rightarrow> stored)
       in \<exists>db' after entry.
            StorePromptConsumedData now A c (StorePromptPaidData t0 A p db) = Inr (db', [])
          \<and> GetAgentUsage db' A = Some after
          \<and> lp_PromptID entry = pp_PromptID p
          \<and> lp_TweetID entry = pp_TweetID p
          \<and> lp_Prompt entry = pp_Prompt p
          \<and> LatestPrompts after =
               (if length (LatestPrompts before) < unat (maxPrompts db)
                then LatestPrompts before @ [entry]
                else tl (LatestPrompts before @ [entry]))
          \<and> (\<forall>later. lru_Peek later (promptCacheKey A (pp_PromptID p)) (promptCache db') = None)))
   \<and> ((A', pc_PromptID c') \<noteq> (A, pp_PromptID p)
      \<and> StorePromptConsumedData now' A' c' db = Inr (db'', logs') \<longrightarrow>
        lru_Peek later (promptCacheKey A (pp_PromptID p)) (promptCache db'')
        = lru_Peek later (promptCacheKey A (pp_PromptID p)) (promptCache db))"
proof -
  have hit: "let before = (case GetAgentUsage db A of
                       None \<Rightarrow> \<lparr>BreakAttempts = 0, LatestPrompts = [], IsDrained = False\<rparr>
                     | Some stored \<Rightarrow> stored)
       in \<exists>db' after entry.
            StorePromptConsumedData now A c db = Inr (db', [])
          \<and> GetAgentUsage db' A = Some after
          \<and> lp_PromptID entry = pc_PromptID c
          \<and> lp_TweetID entry = pp_TweetID p
          \<and> lp_Prompt entry = pp_Prompt p
          \<and> LatestPrompts after =
               (if length (LatestPrompts before) < unat (maxPrompts db)
                then LatestPrompts before @ [entry]
                else tl (LatestPrompts before @ [entry]))
          \<and> (\<forall>later. lru_Peek later (promptCacheKey A (pc_PromptID c)) (promptCache db') = None)"
    if live: "lru_Peek now (promptCacheKey A (pc_PromptID c)) (promptCache db)
       = Some \<lparr>cd_TweetID = pp_TweetID p, cd_Prompt = pp_Prompt p\<rparr>"
      and cap: "\<not> makesliceCapOutOfRange 8 (maxPrompts db + 1)"
    for db :: AgentUsageIndexerDatabaseInMemory
  proof -
    define before where "before = (case GetAgentUsage db A of
                       None \<Rightarrow> \<lparr>BreakAttempts = 0, LatestPrompts = [], IsDrained = False\<rparr>
                     | Some stored \<Rightarrow> stored)"
    have got: "getOrCreateAgentUsage db A = Inr before"
      unfolding before_def by (rule getOrCreateAgentUsage_in_range [OF cap])
    note st = StorePromptConsumedData_result [OF got, of now c, unfolded live, simplified]
    show ?thesis
      unfolding Let_def before_def [symmetric] st
      apply (intro exI conjI)
            apply (rule refl)
           apply (simp add: GetAgentUsage_def)
          apply (simp_all add: lru_Peek_Remove)
      done
  qed
  have paid: "lru_Peek now (promptCacheKey A (pp_PromptID p))
          (promptCache (StorePromptPaidData t0 A p db))
        = Some \<lparr>cd_TweetID = pp_TweetID p, cd_Prompt = pp_Prompt p\<rparr>"
    if "now \<le> t0 + agentUsageIndexerPromptCacheTTL"
    using that by (simp add: Peek_after_Paid)
  have both: "let before = (case GetAgentUsage db A of
                       None \<Rightarrow> \<lparr>BreakAttempts = 0, LatestPrompts = [], IsDrained = False\<rparr>
                     | Some stored \<Rightarrow> stored)
       in \<exists>db' after entry.
            StorePromptConsumedData now A c (StorePromptPaidData t0 A p db) = Inr (db', [])
          \<and> GetAgentUsage db' A = Some after
          \<and> lp_PromptID entry = pp_PromptID p
          \<and> lp_TweetID entry = pp_TweetID p
          \<and> lp_Prompt entry = pp_Prompt p
          \<and> LatestPrompts after =
               (if length (LatestPrompts before) < unat (maxPrompts db)
                then LatestPrompts before @ [entry]
                else tl (LatestPrompts before @ [entry]))
          \<and> (\<forall>later. lru_Peek later (promptCacheKey A (pp_PromptID p)) (promptCache db') = None)"
    if "pc_PromptID c = pp_PromptID p" "now \<le> t0 + agentUsageIndexerPromptCacheTTL"
       "\<not> makesliceCapOutOfRange 8 (maxPrompts db + 1)"
  proof -
    from hit [of "StorePromptPaidData t0 A p db"] paid that
    show ?thesis
      by (simp add: StorePromptPaidData_usages)
  qed
  have other: "lru_Peek later (promptCacheKey A (pp_PromptID p)) (promptCache db'')
        = lru_Peek later (promptCacheKey A (pp_PromptID p)) (promptCache db)"
    if "(A', pc_PromptID c') \<noteq> (A, pp_PromptID p)"
       "StorePromptConsumedData now' A' c' db = Inr (db'', logs')"
    using that by (rule StorePromptConsumedData_other_key)
  from hit paid both other show ?thesis by blast
qed


theorem prompt_cache_round_trip_witness:
  "(1000 :: nat) \<le> 0 + agentUsageIndexerPromptCacheTTL
   \<and> \<not> makesliceCapOutOfRange 8 (maxPrompts (NewAgentUsageIndexerDatabaseInMemory 0 10) + 1)
   \<and> lru_Peek 1000 (promptCacheKey 0xA1 1)
        (promptCache (StorePromptPaidData 0 0xA1
           \<lparr>pp_PromptID = 1, pp_TweetID = 555, pp_Prompt = ''hi''\<rparr>
           (NewAgentUsageIndexerDatabaseInMemory 0 10)))
       = Some \<lparr>cd_TweetID = 555, cd_Prompt = ''hi''\<rparr>
   \<and> (\<exists>db' after entry.
         StorePromptConsumedData 1000 0xA1 \<lparr>pc_PromptID = 1, pc_DrainedTo = 0xA1\<rparr>
           (StorePromptPaidData 0 0xA1
              \<lparr>pp_PromptID = 1, pp_TweetID = 555, pp_Prompt = ''hi''\<rparr>
              (NewAgentUsageIndexerDatabaseInMemory 0 10)) = Inr (db', [])
       \<and> GetAgentUsage db' 0xA1 = Some after
       \<and> lp_PromptID entry = 1 \<and> lp_TweetID entry = 555 \<and> lp_Prompt entry = ''hi''
       \<and> LatestPrompts after = [entry]
       \<and> (\<forall>later. lru_Peek later (promptCacheKey 0xA1 1) (promptCache db') = None))
   \<and> (\<exists>db'' logs'.
         StorePromptConsumedData 500 0xA2 \<lparr>pc_PromptID = 1, pc_DrainedTo = 0xA2\<rparr>
           (StorePromptPaidData 0 0xA1
              \<lparr>pp_PromptID = 1, pp_TweetID = 555, pp_Prompt = ''hi''\<rparr>
              (NewAgentUsageIndexerDatabaseInMemory 0 10)) = Inr (db'', logs')
       \<and> (0xA2 :: bytes32, pc_PromptID \<lparr>pc_PromptID = 1, pc_DrainedTo = 0xA2\<rparr>)
            \<noteq> (0xA1, pp_PromptID \<lparr>pp_PromptID = 1, pp_TweetID = 555, pp_Prompt = ''hi''\<rparr>)
       \<and> lru_Peek 1000 (promptCacheKey 0xA1 1) (promptCache db'')
            = Some \<lparr>cd_TweetID = 555, cd_Prompt = ''hi''\<rparr>)"
proof -
  let ?p = "\<lparr>pp_PromptID = 1, pp_TweetID = 555, pp_Prompt = ''hi''\<rparr>"
  let ?c = "\<lparr>pc_PromptID = 1, pc_DrainedTo = 0xA1\<rparr>"
  let ?c' = "\<lparr>pc_PromptID = 1, pc_DrainedTo = 0xA2\<rparr>"
  let ?db = "NewAgentUsageIndexerDatabaseInMemory 0 10"
  have ttl: "(1000 :: nat) \<le> 0 + agentUsageIndexerPromptCacheTTL"
    by (simp add: agentUsageIndexerPromptCacheTTL_def)
  have K: "maxPrompts ?db = 10"
    by (simp add: NewAgentUsageIndexerDatabaseInMemory_def)
  have cap: "\<not> makesliceCapOutOfRange 8 (maxPrompts ?db + 1)"
    by (simp add: K makesliceCapOutOfRange_def maxAlloc_def)
  have capP: "\<not> makesliceCapOutOfRange 8 (maxPrompts (StorePromptPaidData 0 0xA1 ?p ?db) + 1)"
    using cap by (simp add: StorePromptPaidData_usages)
  have fresh: "GetAgentUsage ?db 0xA1 = None"
    by (simp add: GetAgentUsage_def NewAgentUsageIndexerDatabaseInMemory_def)
  note rt = prompt_cache_round_trip
              [where now = 1000 and A = "0xA1" and c = ?c and p = ?p and ?t0.0 = 0 and db = ?db]
  from rt ttl have live: "lru_Peek 1000 (promptCacheKey 0xA1 1)
        (promptCache (StorePromptPaidData 0 0xA1 ?p ?db))
       = Some \<lparr>cd_TweetID = 555, cd_Prompt = ''hi''\<rparr>"
    by simp
  from rt ttl cap have direct: "\<exists>db' after entry.
         StorePromptConsumedData 1000 0xA1 ?c (StorePromptPaidData 0 0xA1 ?p ?db) = Inr (db', [])
       \<and> GetAgentUsage db' 0xA1 = Some after
       \<and> lp_PromptID entry = 1 \<and> lp_TweetID entry = 555 \<and> lp_Prompt entry = ''hi''
       \<and> LatestPrompts after = [entry]
       \<and> (\<forall>later. lru_Peek later (promptCacheKey 0xA1 1) (promptCache db') = None)"
    by (simp add: Let_def fresh K)
  have ne: "(0xA2 :: bytes32, pc_PromptID ?c') \<noteq> (0xA1, pp_PromptID ?p)"
    by simp
  obtain db'' logs' where
    res: "StorePromptConsumedData 500 0xA2 ?c' (StorePromptPaidData 0 0xA1 ?p ?db) = Inr (db'', logs')"
    using StorePromptConsumedData_result
            [OF getOrCreateAgentUsage_in_range [OF capP, of "0xA2"], of 500 ?c']
    by blast
  note rt2 = prompt_cache_round_trip
              [where A = "0xA1" and p = ?p and A' = "0xA2" and c' = ?c'
                 and later = 1000 and now' = 500 and db'' = db'' and logs' = logs'
                 and db = "StorePromptPaidData 0 0xA1 ?p ?db"]
  from rt2 ne res live have "lru_Peek 1000 (promptCacheKey 0xA1 1) (promptCache db'')
       = Some \<lparr>cd_TweetID = 555, cd_Prompt = ''hi''\<rparr>"
    by simp
  with res ne have other: "\<exists>db'' logs'.
         StorePromptConsumedData 500 0xA2 ?c' (StorePromptPaidData 0 0xA1 ?p ?db) = Inr (db'', logs')
       \<and> (0xA2 :: bytes32, pc_PromptID ?c') \<noteq> (0xA1, pp_PromptID ?p)
       \<and> lru_Peek 1000 (promptCacheKey 0xA1 1) (promptCache db'')
            = Some \<lparr>cd_TweetID = 555, cd_Prompt = ''hi''\<rparr>"
    by blast
  from ttl cap live direct other show ?thesis by blast
qed


subsection \<open>Events from an address other than the registry\<close>

text \<open>
  C8. An event whose emitter is not the configured registry address leaves the
  projection it is applied to exactly as it was, and the handler logs one warning: a
  spoofed \<open>AgentRegistered\<close> adds no \<open>AgentInfo\<close> (and leaves the usage projection alone),
  a spoofed \<open>TokenAdded\<close> or \<open>TokenRemoved\<close> leaves the token set unchanged.
\<close>

theorem spoofed_event_ignored:
  "(FromAddress ev \<noteq> ag_registryAddress ai \<longrightarrow>
      onAgentRegistered ai ev
        = (ai, [(Warn, ''received agent registered event from non-registry address'')])
    \<and> projections_step (ai, udb) (AgentEvent ev) = (ai, udb))
   \<and> (FromAddress ev \<noteq> tk_registryAddress ti \<longrightarrow>
      onTokenAdded ti ev
        = (ti, [(Warn, ''ignoring token added event from non-registry address'')])
    \<and> onTokenRemoved ti ev
        = (ti, [(Warn, ''ignoring token removed event from non-registry address'')]))"
  by (cases udb) (simp_all add: onAgentRegistered_def onTokenAdded_def onTokenRemoved_def)

theorem spoofed_event_ignored_witness:
  "(0xDEAD :: felt) \<noteq> 0x1
   \<and> GetAgentInfo (ag_db (fst (onAgentRegistered (NewAgentIndexer 0x1)
         \<lparr>FromAddress = 0xDEAD,
          ToAgentRegisteredEvent = Some \<lparr>ar_Agent = 0xA1, ar_Creator = 0xC1, ar_Name = ''alice'',
             ar_SystemPrompt = ''sp'', ar_PromptPrice = Some 100, ar_TokenAddress = Some 0x71,
             ar_EndTime = 2000\<rparr>,
          ToTokenAddedEvent = Some \<lparr>ta_Token = 0x71, ta_MinPromptPrice = Some 1,
             ta_MinInitialBalance = Some 1\<rparr>,
          ToTokenRemovedEvent = Some \<lparr>tr_Token = 0x71\<rparr>\<rparr>))) 0xA1 = None
   \<and> GetTokenInfo (tk_db (fst (onTokenAdded (NewTokenIndexer 0x1)
         \<lparr>FromAddress = 0xDEAD,
          ToAgentRegisteredEvent = Some \<lparr>ar_Agent = 0xA1, ar_Creator = 0xC1, ar_Name = ''alice'',
             ar_SystemPrompt = ''sp'', ar_PromptPrice = Some 100, ar_TokenAddress = Some 0x71,
             ar_EndTime = 2000\<rparr>,
          ToTokenAddedEvent = Some \<lparr>ta_Token = 0x71, ta_MinPromptPrice = Some 1,
             ta_MinInitialBalance = Some 1\<rparr>,
          ToTokenRemovedEvent = Some \<lparr>tr_Token = 0x71\<rparr>\<rparr>))) 0x71 = None"
proof -
  let ?ev = "\<lparr>FromAddress = 0xDEAD,
          ToAgentRegisteredEvent = Some \<lparr>ar_Agent = 0xA1, ar_Creator = 0xC1, ar_Name = ''alice'',
             ar_SystemPrompt = ''sp'', ar_PromptPrice = Some 100, ar_TokenAddress = Some 0x71,
             ar_EndTime = 2000\<rparr>,
          ToTokenAddedEvent = Some \<lparr>ta_Token = 0x71, ta_MinPromptPrice = Some 1,
             ta_MinInitialBalance = Some 1\<rparr>,
          ToTokenRemovedEvent = Some \<lparr>tr_Token = 0x71\<rparr>\<rparr>"
  have ne: "(0xDEAD :: felt) \<noteq> 0x1" by simp
  have a: "FromAddress ?ev \<noteq> ag_registryAddress (NewAgentIndexer 0x1)"
    by (simp add: NewAgentIndexer_def)
  have t: "FromAddress ?ev \<noteq> tk_registryAddress (NewTokenIndexer 0x1)"
    by (simp add: NewTokenIndexer_def)
  from spoofed_event_ignored
         [where ev = ?ev and ai = "NewAgentIndexer 0x1" and ti = "NewTokenIndexer 0x1"] a t
  have "fst (onAgentRegistered (NewAgentIndexer 0x1) ?ev) = NewAgentIndexer 0x1"
       "fst (onTokenAdded (NewTokenIndexer 0x1) ?ev) = NewTokenIndexer 0x1"
    by simp_all
  with ne show ?thesis
    by (simp add: NewAgentIndexer_def NewTokenIndexer_def GetAgentInfo_def GetTokenInfo_def
          NewAgentIndexerDatabaseInMemory_def NewTokenIndexerDatabaseInMemory_def)
qed

subsection \<open>Token rates\<close>

lemma GetTokenRate_Some_iff:
  "(GetTokenRate i t = Some v)
     = (\<exists>info. GetTokenInfo (tk_db i) (Bytes t) = Some info
               \<and> \<not> IsZero (RateTime info) \<and> v = Rate info)"
  by (auto simp: GetTokenRate_def split: option.splits)

lemma GetTokenInfo_onTokenAdded:
  "FromAddress ev = tk_registryAddress i \<Longrightarrow> ToTokenAddedEvent ev = Some e \<Longrightarrow>
   GetTokenInfo (tk_db (fst (onTokenAdded i ev))) (Bytes (ta_Token e))
     = Some \<lparr>MinPromptPrice = ta_MinPromptPrice e, MinInitialBalance = ta_MinInitialBalance e,
             Rate = None, RateTime = 0\<rparr>"
  by (simp add: onTokenAdded_def SetTokenInfo_def GetTokenInfo_def)

lemma GetTokenInfo_updatePrices:
  "GetTokenInfo (tk_db i) (Bytes t) = Some info \<Longrightarrow> priceFeed (Bytes t) = Some price \<Longrightarrow>
   GetTokenInfo (tk_db (updatePrices priceFeed now i)) (Bytes t)
     = Some (info\<lparr>Rate := price, RateTime := now\<rparr>)"
  by (simp add: updatePrices_def GetTokenInfo_def)

text \<open>
  C9. \<open>GetTokenRate\<close> reports a value as found exactly when the token has an entry whose
  \<open>RateTime\<close> is not the zero instant, and the value is then the stored rate. A token
  that was added and never refreshed is reported as not found; once a price refresh at
  a non-zero instant has stored a rate, that rate is returned.
\<close>

theorem GetTokenRate_found_iff:
  "((GetTokenRate i t = Some v)
      = (\<exists>info. GetTokenInfo (tk_db i) (Bytes t) = Some info
                \<and> \<not> IsZero (RateTime info) \<and> v = Rate info))
   \<and> (FromAddress ev = tk_registryAddress i \<and> ToTokenAddedEvent ev = Some e \<longrightarrow>
        GetTokenInfo (tk_db (fst (onTokenAdded i ev))) (Bytes (ta_Token e)) \<noteq> None
      \<and> GetTokenRate (fst (onTokenAdded i ev)) (ta_Token e) = None)
   \<and> (GetTokenInfo (tk_db i) (Bytes t) \<noteq> None \<and> priceFeed (Bytes t) = Some price \<and> 0 < now \<longrightarrow>
        GetTokenRate (updatePrices priceFeed now i) t = Some price)"
proof (intro conjI impI)
  show "(GetTokenRate i t = Some v)
      = (\<exists>info. GetTokenInfo (tk_db i) (Bytes t) = Some info
                \<and> \<not> IsZero (RateTime info) \<and> v = Rate info)"
    by (rule GetTokenRate_Some_iff)
next
  assume "FromAddress ev = tk_registryAddress i \<and> ToTokenAddedEvent ev = Some e"
  then have *: "GetTokenInfo (tk_db (fst (onTokenAdded i ev))) (Bytes (ta_Token e))
     = Some \<lparr>MinPromptPrice = ta_MinPromptPrice e, MinInitialBalance = ta_MinInitialBalance e,
             Rate = None, RateTime = 0\<rparr>"
    by (simp add: GetTokenInfo_onTokenAdded)
  from * show "GetTokenInfo (tk_db (fst (onTokenAdded i ev))) (Bytes (ta_Token e)) \<noteq> None"
    by simp
  from * show "GetTokenRate (fst (onTokenAdded i ev)) (ta_Token e) = None"
    by (simp add: GetTokenRate_def IsZero_def)
next
  assume a: "GetTokenInfo (tk_db i) (Bytes t) \<noteq> None \<and> priceFeed (Bytes t) = Some price \<and> 0 < now"
  then obtain info where "GetTokenInfo (tk_db i) (Bytes t) = Some info" by auto
  with a have "GetTokenInfo (tk_db (updatePrices priceFeed now i)) (Bytes t)
     = Some (info\<lparr>Rate := price, RateTime := now\<rparr>)"
    by (simp add: GetTokenInfo_updatePrices)
  with a show "GetTokenRate (updatePrices priceFeed now i) t = Some price"
    by (simp add: GetTokenRate_def IsZero_def)
qed


theorem GetTokenRate_found_iff_witness:
  "GetTokenRate (fst (onTokenAdded (NewTokenIndexer 0x1) \<lparr>FromAddress = 0x1, ToAgentRegisteredEvent = None,
            ToTokenAddedEvent = Some \<lparr>ta_Token = 0x71, ta_MinPromptPrice = Some 100,
               ta_MinInitialBalance = Some 1000\<rparr>,
            ToTokenRemovedEvent = None\<rparr>)) 0x71 = None
   \<and> GetTokenInfo (tk_db (fst (onTokenAdded (NewTokenIndexer 0x1) \<lparr>FromAddress = 0x1, ToAgentRegisteredEvent = None,
            ToTokenAddedEvent = Some \<lparr>ta_Token = 0x71, ta_MinPromptPrice = Some 100,
               ta_MinInitialBalance = Some 1000\<rparr>,
            ToTokenRemovedEvent = None\<rparr>))) (Bytes 0x71) \<noteq> None
   \<and> GetTokenRate (updatePrices (\<lambda>token. Some (Some 2000000000000000000)) 60
         (fst (onTokenAdded (NewTokenIndexer 0x1) \<lparr>FromAddress = 0x1, ToAgentRegisteredEvent = None,
            ToTokenAddedEvent = Some \<lparr>ta_Token = 0x71, ta_MinPromptPrice = Some 100,
               ta_MinInitialBalance = Some 1000\<rparr>,
            ToTokenRemovedEvent = None\<rparr>))) 0x71
       = Some (Some 2000000000000000000)
   \<and> (\<exists>info. GetTokenInfo (tk_db (updatePrices (\<lambda>token. Some (Some 2000000000000000000)) 60
                  (fst (onTokenAdded (NewTokenIndexer 0x1) \<lparr>FromAddress = 0x1, ToAgentRegisteredEvent = None,
            ToTokenAddedEvent = Some \<lparr>ta_Token = 0x71, ta_MinPromptPrice = Some 100,
               ta_MinInitialBalance = Some 1000\<rparr>,
            ToTokenRemovedEvent = None\<rparr>)))) (Bytes 0x71) = Some info
         \<and> \<not> IsZero (RateTime info) \<and> Some 2000000000000000000 = Rate info)"
proof -
  let ?ev = "\<lparr>FromAddress = 0x1, ToAgentRegisteredEvent = None,
            ToTokenAddedEvent = Some \<lparr>ta_Token = 0x71, ta_MinPromptPrice = Some 100,
               ta_MinInitialBalance = Some 1000\<rparr>,
            ToTokenRemovedEvent = None\<rparr>"
  let ?i = "fst (onTokenAdded (NewTokenIndexer 0x1) ?ev)"
  let ?feed = "\<lambda>token :: felt. Some (Some (2000000000000000000 :: int))"
  have h1: "FromAddress ?ev = tk_registryAddress (NewTokenIndexer 0x1)
            \<and> ToTokenAddedEvent ?ev
               = Some \<lparr>ta_Token = 0x71, ta_MinPromptPrice = Some 100,
                       ta_MinInitialBalance = Some 1000\<rparr>"
    by (simp add: NewTokenIndexer_def)
  from GetTokenRate_found_iff
         [where i = "NewTokenIndexer 0x1" and ev = ?ev
            and e = "\<lparr>ta_Token = 0x71, ta_MinPromptPrice = Some 100,
                       ta_MinInitialBalance = Some 1000\<rparr>"] h1
  have added: "GetTokenInfo (tk_db ?i) (Bytes 0x71) \<noteq> None" "GetTokenRate ?i 0x71 = None"
    by simp_all
  from GetTokenRate_found_iff
         [where i = ?i and t = "0x71" and priceFeed = ?feed and now = 60
            and price = "Some 2000000000000000000"] added(1)
  have refreshed: "GetTokenRate (updatePrices ?feed 60 ?i) 0x71 = Some (Some 2000000000000000000)"
    by simp
  from GetTokenRate_found_iff
         [where i = "updatePrices ?feed 60 ?i" and t = "0x71"
            and v = "Some 2000000000000000000"] refreshed
  have "\<exists>info. GetTokenInfo (tk_db (updatePrices ?feed 60 ?i)) (Bytes 0x71) = Some info
         \<and> \<not> IsZero (RateTime info) \<and> Some 2000000000000000000 = Rate info"
    by simp
  with added refreshed show ?thesis by blast
qed


subsection \<open>Removed tokens\<close>

lemma GetTokenInfo_onTokenRemoved:
  "FromAddress ev = tk_registryAddress i \<Longrightarrow> ToTokenRemovedEvent ev = Some e \<Longrightarrow>
   GetTokenInfo (tk_db (fst (onTokenRemoved i ev))) a
     = (if a = Bytes (tr_Token e)
        then Some (case GetTokenInfo (tk_db i) a of
                     Some old \<Rightarrow> old\<lparr>MinPromptPrice := Some 0\<rparr>
                   | None \<Rightarrow> \<lparr>MinPromptPrice = Some 0, MinInitialBalance = None,
                               Rate = None, RateTime = 0\<rparr>)
        else GetTokenInfo (tk_db i) a)"
  by (simp add: onTokenRemoved_def SetTokenInfo_def GetTokenInfo_def)

text \<open>
  C3. After a \<open>TokenRemoved\<close> event from the registry for token \<open>T\<close> has been applied,
  \<open>GetTokenMinPromptPrice\<close> finds \<open>T\<close> with the price 0, and \<open>GetTokenRate\<close> answers for \<open>T\<close>
  what it answered before the removal: a rate that was returned is still returned. The
  entries of all other tokens are unchanged and nothing is logged. The handler passes
  \<^verbatim>\<open>nil\<close> to \<^verbatim>\<open>SetTokenInfo\<close>; that this stores the sentinel is the behaviour the
  component design gives the token database.
\<close>

theorem TokenRemoved_keeps_rate:
  "FromAddress ev = tk_registryAddress i \<and> ToTokenRemovedEvent ev = Some e \<longrightarrow>
     (let i' = fst (onTokenRemoved i ev) in
        GetTokenMinPromptPrice i' (tr_Token e) = Some (Some 0)
      \<and> GetTokenRate i' (tr_Token e) = GetTokenRate i (tr_Token e)
      \<and> (\<forall>t. Bytes t \<noteq> Bytes (tr_Token e) \<longrightarrow>
             GetTokenInfo (tk_db i') (Bytes t) = GetTokenInfo (tk_db i) (Bytes t))
      \<and> snd (onTokenRemoved i ev) = [])"
proof (intro impI, elim conjE)
  assume reg: "FromAddress ev = tk_registryAddress i" and ev: "ToTokenRemovedEvent ev = Some e"
  note info = GetTokenInfo_onTokenRemoved [OF reg ev]
  have price: "GetTokenMinPromptPrice (fst (onTokenRemoved i ev)) (tr_Token e) = Some (Some 0)"
    by (simp add: GetTokenMinPromptPrice_def info split: option.splits)
  have rate: "GetTokenRate (fst (onTokenRemoved i ev)) (tr_Token e) = GetTokenRate i (tr_Token e)"
    by (simp add: GetTokenRate_def info IsZero_def split: option.splits)
  have others: "\<forall>t. Bytes t \<noteq> Bytes (tr_Token e) \<longrightarrow>
             GetTokenInfo (tk_db (fst (onTokenRemoved i ev))) (Bytes t)
               = GetTokenInfo (tk_db i) (Bytes t)"
    by (simp add: info)
  have logs: "snd (onTokenRemoved i ev) = []"
    by (simp add: onTokenRemoved_def reg ev)
  from price rate others logs show
    "let i' = fst (onTokenRemoved i ev) in
        GetTokenMinPromptPrice i' (tr_Token e) = Some (Some 0)
      \<and> GetTokenRate i' (tr_Token e) = GetTokenRate i (tr_Token e)
      \<and> (\<forall>t. Bytes t \<noteq> Bytes (tr_Token e) \<longrightarrow>
             GetTokenInfo (tk_db i') (Bytes t) = GetTokenInfo (tk_db i) (Bytes t))
      \<and> snd (onTokenRemoved i ev) = []"
    by (simp add: Let_def)
qed


theorem TokenRemoved_keeps_rate_witness:
  "FromAddress \<lparr>FromAddress = 0x1, ToAgentRegisteredEvent = None, ToTokenAddedEvent = None,
        ToTokenRemovedEvent = Some \<lparr>tr_Token = 0x71\<rparr>\<rparr> = tk_registryAddress (updatePrices (\<lambda>t. if t = 0x71 then Some (Some 2000000000000000000) else None) 60
        (fst (onTokenAdded (fst (onTokenAdded (NewTokenIndexer 0x1)
           \<lparr>FromAddress = 0x1, ToAgentRegisteredEvent = None,
              ToTokenAddedEvent = Some \<lparr>ta_Token = 0x71, ta_MinPromptPrice = Some 100,
                                        ta_MinInitialBalance = Some 1000\<rparr>,
              ToTokenRemovedEvent = None\<rparr>))
           \<lparr>FromAddress = 0x1, ToAgentRegisteredEvent = None,
              ToTokenAddedEvent = Some \<lparr>ta_Token = 0x72, ta_MinPromptPrice = Some 7,
                                        ta_MinInitialBalance = Some 70\<rparr>,
              ToTokenRemovedEvent = None\<rparr>)))
   \<and> ToTokenRemovedEvent \<lparr>FromAddress = 0x1, ToAgentRegisteredEvent = None, ToTokenAddedEvent = None,
        ToTokenRemovedEvent = Some \<lparr>tr_Token = 0x71\<rparr>\<rparr> = Some \<lparr>tr_Token = 0x71\<rparr>
   \<and> GetTokenRate (updatePrices (\<lambda>t. if t = 0x71 then Some (Some 2000000000000000000) else None) 60
        (fst (onTokenAdded (fst (onTokenAdded (NewTokenIndexer 0x1)
           \<lparr>FromAddress = 0x1, ToAgentRegisteredEvent = None,
              ToTokenAddedEvent = Some \<lparr>ta_Token = 0x71, ta_MinPromptPrice = Some 100,
                                        ta_MinInitialBalance = Some 1000\<rparr>,
              ToTokenRemovedEvent = None\<rparr>))
           \<lparr>FromAddress = 0x1, ToAgentRegisteredEvent = None,
              ToTokenAddedEvent = Some \<lparr>ta_Token = 0x72, ta_MinPromptPrice = Some 7,
                                        ta_MinInitialBalance = Some 70\<rparr>,
              ToTokenRemovedEvent = None\<rparr>))) 0x71 = Some (Some 2000000000000000000)
   \<and> GetTokenRate (fst (onTokenRemoved (updatePrices (\<lambda>t. if t = 0x71 then Some (Some 2000000000000000000) else None) 60
        (fst (onTokenAdded (fst (onTokenAdded (NewTokenIndexer 0x1)
           \<lparr>FromAddress = 0x1, ToAgentRegisteredEvent = None,
              ToTokenAddedEvent = Some \<lparr>ta_Token = 0x71, ta_MinPromptPrice = Some 100,
                                        ta_MinInitialBalance = Some 1000\<rparr>,
              ToTokenRemovedEvent = None\<rparr>))
           \<lparr>FromAddress = 0x1, ToAgentRegisteredEvent = None,
              ToTokenAddedEvent = Some \<lparr>ta_Token = 0x72, ta_MinPromptPrice = Some 7,
                                        ta_MinInitialBalance = Some 70\<rparr>,
              ToTokenRemovedEvent = None\<rparr>))) \<lparr>FromAddress = 0x1, ToAgentRegisteredEvent = None, ToTokenAddedEvent = None,
        ToTokenRemovedEvent = Some \<lparr>tr_Token = 0x71\<rparr>\<rparr>)) 0x71 = Some (Some 2000000000000000000)
   \<and> GetTokenMinPromptPrice (updatePrices (\<lambda>t. if t = 0x71 then Some (Some 2000000000000000000) else None) 60
        (fst (onTokenAdded (fst (onTokenAdded (NewTokenIndexer 0x1)
           \<lparr>FromAddress = 0x1, ToAgentRegisteredEvent = None,
              ToTokenAddedEvent = Some \<lparr>ta_Token = 0x71, ta_MinPromptPrice = Some 100,
                                        ta_MinInitialBalance = Some 1000\<rparr>,
              ToTokenRemovedEvent = None\<rparr>))
           \<lparr>FromAddress = 0x1, ToAgentRegisteredEvent = None,
              ToTokenAddedEvent = Some \<lparr>ta_Token = 0x72, ta_MinPromptPrice = Some 7,
                                        ta_MinInitialBalance = Some 70\<rparr>,
              ToTokenRemovedEvent = None\<rparr>))) 0x71 = Some (Some 100)
   \<and> GetTokenMinPromptPrice (fst (onTokenRemoved (updatePrices (\<lambda>t. if t = 0x71 then Some (Some 2000000000000000000) else None) 60
        (fst (onTokenAdded (fst (onTokenAdded (NewTokenIndexer 0x1)
           \<lparr>FromAddress = 0x1, ToAgentRegisteredEvent = None,
              ToTokenAddedEvent = Some \<lparr>ta_Token = 0x71, ta_MinPromptPrice = Some 100,
                                        ta_MinInitialBalance = Some 1000\<rparr>,
              ToTokenRemovedEvent = None\<rparr>))
           \<lparr>FromAddress = 0x1, ToAgentRegisteredEvent = None,
              ToTokenAddedEvent = Some \<lparr>ta_Token = 0x72, ta_MinPromptPrice = Some 7,
                                        ta_MinInitialBalance = Some 70\<rparr>,
              ToTokenRemovedEvent = None\<rparr>))) \<lparr>FromAddress = 0x1, ToAgentRegisteredEvent = None, ToTokenAddedEvent = None,
        ToTokenRemovedEvent = Some \<lparr>tr_Token = 0x71\<rparr>\<rparr>)) 0x71 = Some (Some 0)
   \<and> Bytes 0x72 \<noteq> Bytes 0x71
   \<and> GetTokenInfo (tk_db (fst (onTokenRemoved (updatePrices (\<lambda>t. if t = 0x71 then Some (Some 2000000000000000000) else None) 60
        (fst (onTokenAdded (fst (onTokenAdded (NewTokenIndexer 0x1)
           \<lparr>FromAddress = 0x1, ToAgentRegisteredEvent = None,
              ToTokenAddedEvent = Some \<lparr>ta_Token = 0x71, ta_MinPromptPrice = Some 100,
                                        ta_MinInitialBalance = Some 1000\<rparr>,
              ToTokenRemovedEvent = None\<rparr>))
           \<lparr>FromAddress = 0x1, ToAgentRegisteredEvent = None,
              ToTokenAddedEvent = Some \<lparr>ta_Token = 0x72, ta_MinPromptPrice = Some 7,
                                        ta_MinInitialBalance = Some 70\<rparr>,
              ToTokenRemovedEvent = None\<rparr>))) \<lparr>FromAddress = 0x1, ToAgentRegisteredEvent = None, ToTokenAddedEvent = None,
        ToTokenRemovedEvent = Some \<lparr>tr_Token = 0x71\<rparr>\<rparr>))) (Bytes 0x72)
        = Some \<lparr>MinPromptPrice = Some 7, MinInitialBalance = Some 70, Rate = None, RateTime = 0\<rparr>"
proof -
  have reg: "FromAddress \<lparr>FromAddress = 0x1, ToAgentRegisteredEvent = None, ToTokenAddedEvent = None,
        ToTokenRemovedEvent = Some \<lparr>tr_Token = 0x71\<rparr>\<rparr> = tk_registryAddress (updatePrices (\<lambda>t. if t = 0x71 then Some (Some 2000000000000000000) else None) 60
        (fst (onTokenAdded (fst (onTokenAdded (NewTokenIndexer 0x1)
           \<lparr>FromAddress = 0x1, ToAgentRegisteredEvent = None,
              ToTokenAddedEvent = Some \<lparr>ta_Token = 0x71, ta_MinPromptPrice = Some 100,
                                        ta_MinInitialBalance = Some 1000\<rparr>,
              ToTokenRemovedEvent = None\<rparr>))
           \<lparr>FromAddress = 0x1, ToAgentRegisteredEvent = None,
              ToTokenAddedEvent = Some \<lparr>ta_Token = 0x72, ta_MinPromptPrice = Some 7,
                                        ta_MinInitialBalance = Some 70\<rparr>,
              ToTokenRemovedEvent = None\<rparr>)))"
    by (simp add: updatePrices_def onTokenAdded_def NewTokenIndexer_def)
  have ev: "ToTokenRemovedEvent \<lparr>FromAddress = 0x1, ToAgentRegisteredEvent = None, ToTokenAddedEvent = None,
        ToTokenRemovedEvent = Some \<lparr>tr_Token = 0x71\<rparr>\<rparr> = Some \<lparr>tr_Token = 0x71\<rparr>"
    by simp
  have i71: "GetTokenInfo (tk_db (updatePrices (\<lambda>t. if t = 0x71 then Some (Some 2000000000000000000) else None) 60
        (fst (onTokenAdded (fst (onTokenAdded (NewTokenIndexer 0x1)
           \<lparr>FromAddress = 0x1, ToAgentRegisteredEvent = None,
              ToTokenAddedEvent = Some \<lparr>ta_Token = 0x71, ta_MinPromptPrice = Some 100,
                                        ta_MinInitialBalance = Some 1000\<rparr>,
              ToTokenRemovedEvent = None\<rparr>))
           \<lparr>FromAddress = 0x1, ToAgentRegisteredEvent = None,
              ToTokenAddedEvent = Some \<lparr>ta_Token = 0x72, ta_MinPromptPrice = Some 7,
                                        ta_MinInitialBalance = Some 70\<rparr>,
              ToTokenRemovedEvent = None\<rparr>)))) (Bytes 0x71)
               = Some \<lparr>MinPromptPrice = Some 100, MinInitialBalance = Some 1000,
                       Rate = Some 2000000000000000000, RateTime = 60\<rparr>"
    by (simp add: updatePrices_def onTokenAdded_def NewTokenIndexer_def SetTokenInfo_def
          GetTokenInfo_def NewTokenIndexerDatabaseInMemory_def Bytes_def)
  have i72: "GetTokenInfo (tk_db (updatePrices (\<lambda>t. if t = 0x71 then Some (Some 2000000000000000000) else None) 60
        (fst (onTokenAdded (fst (onTokenAdded (NewTokenIndexer 0x1)
           \<lparr>FromAddress = 0x1, ToAgentRegisteredEvent = None,
              ToTokenAddedEvent = Some \<lparr>ta_Token = 0x71, ta_MinPromptPrice = Some 100,
                                        ta_MinInitialBalance = Some 1000\<rparr>,
              ToTokenRemovedEvent = None\<rparr>))
           \<lparr>FromAddress = 0x1, ToAgentRegisteredEvent = None,
              ToTokenAddedEvent = Some \<lparr>ta_Token = 0x72, ta_MinPromptPrice = Some 7,
                                        ta_MinInitialBalance = Some 70\<rparr>,
              ToTokenRemovedEvent = None\<rparr>)))) (Bytes 0x72)
               = Some \<lparr>MinPromptPrice = Some 7, MinInitialBalance = Some 70,
                       Rate = None, RateTime = 0\<rparr>"
    by (simp add: updatePrices_def onTokenAdded_def NewTokenIndexer_def SetTokenInfo_def
          GetTokenInfo_def NewTokenIndexerDatabaseInMemory_def Bytes_def)
  have rate: "GetTokenRate (updatePrices (\<lambda>t. if t = 0x71 then Some (Some 2000000000000000000) else None) 60
        (fst (onTokenAdded (fst (onTokenAdded (NewTokenIndexer 0x1)
           \<lparr>FromAddress = 0x1, ToAgentRegisteredEvent = None,
              ToTokenAddedEvent = Some \<lparr>ta_Token = 0x71, ta_MinPromptPrice = Some 100,
                                        ta_MinInitialBalance = Some 1000\<rparr>,
              ToTokenRemovedEvent = None\<rparr>))
           \<lparr>FromAddress = 0x1, ToAgentRegisteredEvent = None,
              ToTokenAddedEvent = Some \<lparr>ta_Token = 0x72, ta_MinPromptPrice = Some 7,
                                        ta_MinInitialBalance = Some 70\<rparr>,
              ToTokenRemovedEvent = None\<rparr>))) 0x71 = Some (Some 2000000000000000000)"
    by (simp add: GetTokenRate_def i71 IsZero_def)
  have price: "GetTokenMinPromptPrice (updatePrices (\<lambda>t. if t = 0x71 then Some (Some 2000000000000000000) else None) 60
        (fst (onTokenAdded (fst (onTokenAdded (NewTokenIndexer 0x1)
           \<lparr>FromAddress = 0x1, ToAgentRegisteredEvent = None,
              ToTokenAddedEvent = Some \<lparr>ta_Token = 0x71, ta_MinPromptPrice = Some 100,
                                        ta_MinInitialBalance = Some 1000\<rparr>,
              ToTokenRemovedEvent = None\<rparr>))
           \<lparr>FromAddress = 0x1, ToAgentRegisteredEvent = None,
              ToTokenAddedEvent = Some \<lparr>ta_Token = 0x72, ta_MinPromptPrice = Some 7,
                                        ta_MinInitialBalance = Some 70\<rparr>,
              ToTokenRemovedEvent = None\<rparr>))) 0x71 = Some (Some 100)"
    by (simp add: GetTokenMinPromptPrice_def i71)
  have ne: "Bytes 0x72 \<noteq> Bytes 0x71"
    by (simp add: Bytes_def)
  note th = TokenRemoved_keeps_rate [where ev = "\<lparr>FromAddress = 0x1, ToAgentRegisteredEvent = None, ToTokenAddedEvent = None,
        ToTokenRemovedEvent = Some \<lparr>tr_Token = 0x71\<rparr>\<rparr>" and i = "(updatePrices (\<lambda>t. if t = 0x71 then Some (Some 2000000000000000000) else None) 60
        (fst (onTokenAdded (fst (onTokenAdded (NewTokenIndexer 0x1)
           \<lparr>FromAddress = 0x1, ToAgentRegisteredEvent = None,
              ToTokenAddedEvent = Some \<lparr>ta_Token = 0x71, ta_MinPromptPrice = Some 100,
                                        ta_MinInitialBalance = Some 1000\<rparr>,
              ToTokenRemovedEvent = None\<rparr>))
           \<lparr>FromAddress = 0x1, ToAgentRegisteredEvent = None,
              ToTokenAddedEvent = Some \<lparr>ta_Token = 0x72, ta_MinPromptPrice = Some 7,
                                        ta_MinInitialBalance = Some 70\<rparr>,
              ToTokenRemovedEvent = None\<rparr>)))" and e = "\<lparr>tr_Token = 0x71\<rparr>"]
  from th reg ev rate have rate': "GetTokenRate (fst (onTokenRemoved (updatePrices (\<lambda>t. if t = 0x71 then Some (Some 2000000000000000000) else None) 60
        (fst (onTokenAdded (fst (onTokenAdded (NewTokenIndexer 0x1)
           \<lparr>FromAddress = 0x1, ToAgentRegisteredEvent = None,
              ToTokenAddedEvent = Some \<lparr>ta_Token = 0x71, ta_MinPromptPrice = Some 100,
                                        ta_MinInitialBalance = Some 1000\<rparr>,
              ToTokenRemovedEvent = None\<rparr>))
           \<lparr>FromAddress = 0x1, ToAgentRegisteredEvent = None,
              ToTokenAddedEvent = Some \<lparr>ta_Token = 0x72, ta_MinPromptPrice = Some 7,
                                        ta_MinInitialBalance = Some 70\<rparr>,
              ToTokenRemovedEvent = None\<rparr>))) \<lparr>FromAddress = 0x1, ToAgentRegisteredEvent = None, ToTokenAddedEvent = None,
        ToTokenRemovedEvent = Some \<lparr>tr_Token = 0x71\<rparr>\<rparr>)) 0x71
                          = Some (Some 2000000000000000000)"
    by (simp add: Let_def)
  from th reg ev have price': "GetTokenMinPromptPrice (fst (onTokenRemoved (updatePrices (\<lambda>t. if t = 0x71 then Some (Some 2000000000000000000) else None) 60
        (fst (onTokenAdded (fst (onTokenAdded (NewTokenIndexer 0x1)
           \<lparr>FromAddress = 0x1, ToAgentRegisteredEvent = None,
              ToTokenAddedEvent = Some \<lparr>ta_Token = 0x71, ta_MinPromptPrice = Some 100,
                                        ta_MinInitialBalance = Some 1000\<rparr>,
              ToTokenRemovedEvent = None\<rparr>))
           \<lparr>FromAddress = 0x1, ToAgentRegisteredEvent = None,
              ToTokenAddedEvent = Some \<lparr>ta_Token = 0x72, ta_MinPromptPrice = Some 7,
                                        ta_MinInitialBalance = Some 70\<rparr>,
              ToTokenRemovedEvent = None\<rparr>))) \<lparr>FromAddress = 0x1, ToAgentRegisteredEvent = None, ToTokenAddedEvent = None,
        ToTokenRemovedEvent = Some \<lparr>tr_Token = 0x71\<rparr>\<rparr>)) 0x71
                          = Some (Some 0)"
    by (simp add: Let_def)
  from th reg ev have "\<forall>t. Bytes t \<noteq> Bytes 0x71 \<longrightarrow>
             GetTokenInfo (tk_db (fst (onTokenRemoved (updatePrices (\<lambda>t. if t = 0x71 then Some (Some 2000000000000000000) else None) 60
        (fst (onTokenAdded (fst (onTokenAdded (NewTokenIndexer 0x1)
           \<lparr>FromAddress = 0x1, ToAgentRegisteredEvent = None,
              ToTokenAddedEvent = Some \<lparr>ta_Token = 0x71, ta_MinPromptPrice = Some 100,
                                        ta_MinInitialBalance = Some 1000\<rparr>,
              ToTokenRemovedEvent = None\<rparr>))
           \<lparr>FromAddress = 0x1, ToAgentRegisteredEvent = None,
              ToTokenAddedEvent = Some \<lparr>ta_Token = 0x72, ta_MinPromptPrice = Some 7,
                                        ta_MinInitialBalance = Some 70\<rparr>,
              ToTokenRemovedEvent = None\<rparr>))) \<lparr>FromAddress = 0x1, ToAgentRegisteredEvent = None, ToTokenAddedEvent = None,
        ToTokenRemovedEvent = Some \<lparr>tr_Token = 0x71\<rparr>\<rparr>))) (Bytes t)
               = GetTokenInfo (tk_db (updatePrices (\<lambda>t. if t = 0x71 then Some (Some 2000000000000000000) else None) 60
        (fst (onTokenAdded (fst (onTokenAdded (NewTokenIndexer 0x1)
           \<lparr>FromAddress = 0x1, ToAgentRegisteredEvent = None,
              ToTokenAddedEvent = Some \<lparr>ta_Token = 0x71, ta_MinPromptPrice = Some 100,
                                        ta_MinInitialBalance = Some 1000\<rparr>,
              ToTokenRemovedEvent = None\<rparr>))
           \<lparr>FromAddress = 0x1, ToAgentRegisteredEvent = None,
              ToTokenAddedEvent = Some \<lparr>ta_Token = 0x72, ta_MinPromptPrice = Some 7,
                                        ta_MinInitialBalance = Some 70\<rparr>,
              ToTokenRemovedEvent = None\<rparr>)))) (Bytes t)"
    by (simp add: Let_def)
  with ne i72 have other: "GetTokenInfo (tk_db (fst (onTokenRemoved (updatePrices (\<lambda>t. if t = 0x71 then Some (Some 2000000000000000000) else None) 60
        (fst (onTokenAdded (fst (onTokenAdded (NewTokenIndexer 0x1)
           \<lparr>FromAddress = 0x1, ToAgentRegisteredEvent = None,
              ToTokenAddedEvent = Some \<lparr>ta_Token = 0x71, ta_MinPromptPrice = Some 100,
                                        ta_MinInitialBalance = Some 1000\<rparr>,
              ToTokenRemovedEvent = None\<rparr>))
           \<lparr>FromAddress = 0x1, ToAgentRegisteredEvent = None,
              ToTokenAddedEvent = Some \<lparr>ta_Token = 0x72, ta_MinPromptPrice = Some 7,
                                        ta_MinInitialBalance = Some 70\<rparr>,
              ToTokenRemovedEvent = None\<rparr>))) \<lparr>FromAddress = 0x1, ToAgentRegisteredEvent = None, ToTokenAddedEvent = None,
        ToTokenRemovedEvent = Some \<lparr>tr_Token = 0x71\<rparr>\<rparr>))) (Bytes 0x72)
        = Some \<lparr>MinPromptPrice = Some 7, MinInitialBalance = Some 70, Rate = None, RateTime = 0\<rparr>"
    by simp
  from reg ev rate rate' price price' ne other show ?thesis by blast
qed


subsection \<open>On-demand fetch\<close>

text \<open>The three calls \<open>fetchAgentInfo\<close> may issue, in the order it issues them.\<close>

lemma fetchAgentInfo_calls:
  "snd (fetchAgentInfo client parse i addr) =
     take (length (snd (fetchAgentInfo client parse i addr)))
       [(\<lparr>ContractAddress = ag_registryAddress i, EntryPointSelector = isAgentRegisteredSelector,
          Calldata = [addr]\<rparr>, WithBlockTag ''latest''),
        (\<lparr>ContractAddress = addr, EntryPointSelector = getNameSelector, Calldata = []\<rparr>,
         WithBlockTag ''latest''),
        (\<lparr>ContractAddress = addr, EntryPointSelector = getSystemPromptSelector, Calldata = []\<rparr>,
         WithBlockTag ''latest'')]
   \<and> 0 < length (snd (fetchAgentInfo client parse i addr))"
  by (simp add: fetchAgentInfo_def Let_def split: sum.splits list.splits error.splits)

lemma fetchAgentInfo_latest:
  "(call, bid) \<in> set (snd (fetchAgentInfo client parse i addr)) \<Longrightarrow>
     bid = WithBlockTag ''latest''
   \<and> EntryPointSelector call
        \<in> {isAgentRegisteredSelector, getNameSelector, getSystemPromptSelector}"
  by (auto simp: fetchAgentInfo_def Let_def split: sum.splits list.splits if_splits error.splits)





text \<open>The outcomes of the first call.\<close>

lemma fetchAgentInfo_rpc_error:
  "client (\<lparr>ContractAddress = ag_registryAddress i,
                EntryPointSelector = isAgentRegisteredSelector,
                Calldata = [addr]\<rparr>, WithBlockTag ''latest'') = Inl err \<Longrightarrow>
   fetchAgentInfo client parse i addr
     = (Inl (Err (''is_agent_registered call failed: '' @ err)),
        [(\<lparr>ContractAddress = ag_registryAddress i,
                EntryPointSelector = isAgentRegisteredSelector,
                Calldata = [addr]\<rparr>, WithBlockTag ''latest'')])"
  by (simp add: fetchAgentInfo_def Let_def)

lemma fetchAgentInfo_not_registered:
  "client (\<lparr>ContractAddress = ag_registryAddress i,
                EntryPointSelector = isAgentRegisteredSelector,
                Calldata = [addr]\<rparr>, WithBlockTag ''latest'') = Inr (r # rest) \<Longrightarrow> r \<noteq> 1 \<Longrightarrow>
   fetchAgentInfo client parse i addr
     = (Inl (Err ''agent not registered''),
        [(\<lparr>ContractAddress = ag_registryAddress i,
                EntryPointSelector = isAgentRegisteredSelector,
                Calldata = [addr]\<rparr>, WithBlockTag ''latest'')])"
  by (simp add: fetchAgentInfo_def Let_def)

lemma fetchAgentInfo_empty_answer:
  "client (\<lparr>ContractAddress = ag_registryAddress i,
                EntryPointSelector = isAgentRegisteredSelector,
                Calldata = [addr]\<rparr>, WithBlockTag ''latest'') = Inr [] \<Longrightarrow>
   fetchAgentInfo client parse i addr
     = (Inl (Panic IndexOutOfRange),
        [(\<lparr>ContractAddress = ag_registryAddress i,
                EntryPointSelector = isAgentRegisteredSelector,
                Calldata = [addr]\<rparr>, WithBlockTag ''latest'')])"
  by (simp add: fetchAgentInfo_def Let_def)

text \<open>
  The fetch panics exactly when the answer to \<open>is_agent_registered\<close> is empty or
  \<^verbatim>\<open>ByteArrFeltToString\<close> panics on an answer it is given; in every other case it returns
  the partial info or an error.
\<close>

lemma fetchAgentInfo_info_or_error:
  assumes "client (\<lparr>ContractAddress = ag_registryAddress i,
                EntryPointSelector = isAgentRegisteredSelector,
                Calldata = [addr]\<rparr>, WithBlockTag ''latest'') \<noteq> Inr []"
      and "\<And>felts pn. parse felts \<noteq> Inl (Panic pn)"
  shows "(\<exists>info. fst (fetchAgentInfo client parse i addr) = Inr info)
         \<or> (\<exists>msg. fst (fetchAgentInfo client parse i addr) = Inl (Err msg))"
  using assms
  by (auto simp: fetchAgentInfo_def Let_def split: sum.splits list.splits error.splits)

text \<open>The three branches of \<open>GetOrFetchAgentInfo\<close>.\<close>

lemma GetOrFetchAgentInfo_cached:
  "GetAgentInfo (ag_db i) (Bytes addr) = Some info \<Longrightarrow>
   GetOrFetchAgentInfo client parse i addr block = (Inr info, [])"
  by (simp add: GetOrFetchAgentInfo_def)

lemma GetOrFetchAgentInfo_not_found:
  "GetAgentInfo (ag_db i) (Bytes addr) = None \<Longrightarrow> block \<le> ag_GetLastIndexedBlock (ag_db i) \<Longrightarrow>
   GetOrFetchAgentInfo client parse i addr block = (Inl (Err ''agent not found''), [])"
  by (simp add: GetOrFetchAgentInfo_def)

lemma GetOrFetchAgentInfo_fetch:
  "GetAgentInfo (ag_db i) (Bytes addr) = None \<Longrightarrow> ag_GetLastIndexedBlock (ag_db i) < block \<Longrightarrow>
   GetOrFetchAgentInfo client parse i addr block = fetchAgentInfo client parse i addr"
  by (simp add: GetOrFetchAgentInfo_def not_le [symmetric])

text \<open>
  C6. \<open>GetOrFetchAgentInfo\<close> returns the cached \<open>AgentInfo\<close> whenever the database has one
  (\<open>GetOrFetchAgentInfo_cached\<close>), and the error "agent not found" without any call when
  it has none and the last indexed block is at or beyond the requested block
  (\<open>GetOrFetchAgentInfo_not_found\<close>). In the remaining case it is \<open>fetchAgentInfo\<close>, which
  calls \<open>is_agent_registered\<close> on the registry against the block tag "latest" and then
  indexes the answer at 0 without looking at its length. For an agent that is not
  indexed, a requested block 5 beyond the last indexed block 0, and a provider that
  answers \<open>is_agent_registered\<close> with an empty array and no error, the function returns
  neither a partial \<open>AgentInfo\<close> nor an error: it panics with an index out of range, after
  that one call.
\<close>

theorem GetOrFetchAgentInfo_empty_answer_panics:
  "GetAgentInfo (ag_db (NewAgentIndexer 0x1)) (Bytes 0xA1) = None
   \<and> ag_GetLastIndexedBlock (ag_db (NewAgentIndexer 0x1)) < 5
   \<and> GetOrFetchAgentInfo (\<lambda>call. Inr []) (\<lambda>felts. Inr []) (NewAgentIndexer 0x1) 0xA1 5
       = (Inl (Panic IndexOutOfRange),
          [(\<lparr>ContractAddress = 0x1, EntryPointSelector = isAgentRegisteredSelector,
             Calldata = [0xA1]\<rparr>, WithBlockTag ''latest'')])"
  by (simp add: GetOrFetchAgentInfo_def fetchAgentInfo_def NewAgentIndexer_def GetAgentInfo_def
        NewAgentIndexerDatabaseInMemory_def ag_GetLastIndexedBlock_def Bytes_def Let_def)






subsection \<open>Agents by creator\<close>

text \<open>
  The call reports not-found exactly when \<open>start\<close> is at or beyond the number of the
  creator's addresses, whatever the limit. Below that, and as long as \<open>start + limit\<close>
  fits in 64 bits, it returns the infos of the positions from \<open>start\<close> up to
  \<open>min (start + limit) count\<close> in the order of the creator index, the count and the last
  indexed block. When \<open>start + limit\<close> does not fit, the call panics.
\<close>

lemma GetAgentsByCreator_not_found_iff:
  "(\<exists>logs. GetAgentsByCreator i creator start limit = Inr (None, logs))
     = (length (GetAddressesByCreator (ag_db i) (Bytes creator)) \<le> unat start)"
  by (auto simp: GetAgentsByCreator_def Let_def)

lemma GetAgentsByCreator_page:
  fixes i creator start limit
  defines "agents \<equiv> GetAddressesByCreator (ag_db i) (Bytes creator)"
  defines "page \<equiv> take (min (unat start + unat limit) (length agents) - unat start)
                     (drop (unat start) agents)"
  assumes lt: "unat start < length agents"
      and fit: "unat start + unat limit < 2 ^ 64"
  shows "GetAgentsByCreator i creator start limit =
           Inr (Some \<lparr>Agents = map (\<lambda>addr. case GetAgentInfo (ag_db i) addr of
                                            Some info \<Rightarrow> info | None \<Rightarrow> AgentInfo_zero) page,
                      AgentCount = word_of_nat (length agents),
                      LastBlock = ag_GetLastIndexedBlock (ag_db i)\<rparr>,
                map (\<lambda>addr. (Error, ''agent not found''))
                  (filter (\<lambda>addr. GetAgentInfo (ag_db i) addr = None) page))"
proof -
  have sum: "unat (start + limit) = unat start + unat limit"
    using fit by (simp add: unat_word_ariths)
  show ?thesis
  proof (cases "unat (start + limit) > length agents")
    case True
    then have small: "length agents < 2 ^ 64"
      using sum fit by simp
    then have cnt: "unat (word_of_nat (length agents) :: u64) = length agents"
      by (simp add: unat_of_nat)
    have ge: "\<not> (word_of_nat (length agents) :: u64) < start"
      using lt cnt by (simp add: word_less_nat_alt)
    have m: "min (unat start + unat limit) (length agents) = length agents"
      using True sum by simp
    show ?thesis
      using True lt ge cnt
      unfolding GetAgentsByCreator_def Let_def agents_def [symmetric] page_def m
      by simp
  next
    case False
    have ge: "\<not> start + limit < start"
      using sum by (simp add: word_less_nat_alt)
    have m: "min (unat start + unat limit) (length agents) = unat start + unat limit"
      using False sum by simp
    show ?thesis
      using False lt ge sum
      unfolding GetAgentsByCreator_def Let_def agents_def [symmetric] page_def m
      by simp
  qed
qed

lemma GetAgentsByCreator_overflow:
  assumes lt: "unat start < length (GetAddressesByCreator (ag_db i) (Bytes creator))"
      and over: "2 ^ 64 \<le> unat start + unat limit"
  shows "GetAgentsByCreator i creator start limit = Inl MakeSliceLenOutOfRange"
proof -
  have bl: "unat limit < 2 ^ 64" and bs: "unat start < 2 ^ 64"
    using unsigned_less [of limit] unsigned_less [of start] by simp_all
  have "unat (start + limit) = (unat start + unat limit) mod 2 ^ 64"
    by (simp add: unat_word_ariths)
  also have "\<dots> = (unat start + unat limit - 2 ^ 64) mod 2 ^ 64"
    using over by (rule le_mod_geq)
  also have "\<dots> = unat start + unat limit - 2 ^ 64"
    using bl bs by (intro mod_less) linarith
  finally have wrapped: "unat (start + limit) < unat start"
    using over bl by linarith
  then have "start + limit < start"
    by (simp add: word_less_nat_alt)
  moreover have "\<not> length (GetAddressesByCreator (ag_db i) (Bytes creator)) < unat (start + limit)"
    using wrapped lt by simp
  ultimately show ?thesis
    using lt by (simp add: GetAgentsByCreator_def Let_def)
qed


lemma two_agents_of_creator:
  "GetAddressesByCreator (ag_db (fst (onAgentRegistered (fst (onAgentRegistered (NewAgentIndexer 0x1)
          \<lparr>FromAddress = 0x1,
            ToAgentRegisteredEvent = Some \<lparr>ar_Agent = 0xA1, ar_Creator = 0xC1,
               ar_Name = ''alice'', ar_SystemPrompt = ''sp'', ar_PromptPrice = Some 100,
               ar_TokenAddress = Some 0x71, ar_EndTime = 2000\<rparr>,
            ToTokenAddedEvent = None, ToTokenRemovedEvent = None\<rparr>))
          \<lparr>FromAddress = 0x1,
            ToAgentRegisteredEvent = Some \<lparr>ar_Agent = 0xA2, ar_Creator = 0xC1,
               ar_Name = ''bob'', ar_SystemPrompt = ''sp'', ar_PromptPrice = Some 100,
               ar_TokenAddress = Some 0x71, ar_EndTime = 2000\<rparr>,
            ToTokenAddedEvent = None, ToTokenRemovedEvent = None\<rparr>))) (Bytes 0xC1) = [0xA1, 0xA2]"
  by (simp add: onAgentRegistered_def NewAgentIndexer_def NewAgentIndexerDatabaseInMemory_def
        SetAgentInfo_def GetAddressesByCreator_def Bytes_def)

text \<open>
  C7 at a failing input. Creator \<open>0xC1\<close> has registered two agents; the call asks for
  \<open>start = 1\<close> and \<open>limit = 2\<^sup>6\<^sup>4 - 1\<close>. The specification promises the agent at position 1
  with a total of 2. In the code \<^verbatim>\<open>start + limit\<close> wraps to 0, the clamp against the
  count does not fire, \<^verbatim>\<open>end-start\<close> wraps to \<open>2\<^sup>6\<^sup>4 - 1\<close> and \<^verbatim>\<open>make\<close> panics.
\<close>

theorem GetAgentsByCreator_overflow_panics:
  "GetAddressesByCreator (ag_db (fst (onAgentRegistered (fst (onAgentRegistered (NewAgentIndexer 0x1)
          \<lparr>FromAddress = 0x1,
            ToAgentRegisteredEvent = Some \<lparr>ar_Agent = 0xA1, ar_Creator = 0xC1,
               ar_Name = ''alice'', ar_SystemPrompt = ''sp'', ar_PromptPrice = Some 100,
               ar_TokenAddress = Some 0x71, ar_EndTime = 2000\<rparr>,
            ToTokenAddedEvent = None, ToTokenRemovedEvent = None\<rparr>))
          \<lparr>FromAddress = 0x1,
            ToAgentRegisteredEvent = Some \<lparr>ar_Agent = 0xA2, ar_Creator = 0xC1,
               ar_Name = ''bob'', ar_SystemPrompt = ''sp'', ar_PromptPrice = Some 100,
               ar_TokenAddress = Some 0x71, ar_EndTime = 2000\<rparr>,
            ToTokenAddedEvent = None, ToTokenRemovedEvent = None\<rparr>))) (Bytes 0xC1) = [0xA1, 0xA2]
   \<and> GetAgentsByCreator (fst (onAgentRegistered (fst (onAgentRegistered (NewAgentIndexer 0x1)
          \<lparr>FromAddress = 0x1,
            ToAgentRegisteredEvent = Some \<lparr>ar_Agent = 0xA1, ar_Creator = 0xC1,
               ar_Name = ''alice'', ar_SystemPrompt = ''sp'', ar_PromptPrice = Some 100,
               ar_TokenAddress = Some 0x71, ar_EndTime = 2000\<rparr>,
            ToTokenAddedEvent = None, ToTokenRemovedEvent = None\<rparr>))
          \<lparr>FromAddress = 0x1,
            ToAgentRegisteredEvent = Some \<lparr>ar_Agent = 0xA2, ar_Creator = 0xC1,
               ar_Name = ''bob'', ar_SystemPrompt = ''sp'', ar_PromptPrice = Some 100,
               ar_TokenAddress = Some 0x71, ar_EndTime = 2000\<rparr>,
            ToTokenAddedEvent = None, ToTokenRemovedEvent = None\<rparr>)) 0xC1 1 0xFFFFFFFFFFFFFFFF = Inl MakeSliceLenOutOfRange"
proof -
  have lt: "unat (1 :: u64) < length (GetAddressesByCreator (ag_db (fst (onAgentRegistered (fst (onAgentRegistered (NewAgentIndexer 0x1)
          \<lparr>FromAddress = 0x1,
            ToAgentRegisteredEvent = Some \<lparr>ar_Agent = 0xA1, ar_Creator = 0xC1,
               ar_Name = ''alice'', ar_SystemPrompt = ''sp'', ar_PromptPrice = Some 100,
               ar_TokenAddress = Some 0x71, ar_EndTime = 2000\<rparr>,
            ToTokenAddedEvent = None, ToTokenRemovedEvent = None\<rparr>))
          \<lparr>FromAddress = 0x1,
            ToAgentRegisteredEvent = Some \<lparr>ar_Agent = 0xA2, ar_Creator = 0xC1,
               ar_Name = ''bob'', ar_SystemPrompt = ''sp'', ar_PromptPrice = Some 100,
               ar_TokenAddress = Some 0x71, ar_EndTime = 2000\<rparr>,
            ToTokenAddedEvent = None, ToTokenRemovedEvent = None\<rparr>))) (Bytes 0xC1))"
    by (simp add: two_agents_of_creator)
  have over: "2 ^ 64 \<le> unat (1 :: u64) + unat (0xFFFFFFFFFFFFFFFF :: u64)"
    by simp
  from GetAgentsByCreator_overflow [OF lt over] two_agents_of_creator
  show ?thesis by simp
qed

lemma GetAgentsByCreator_second_page:
  "GetAgentsByCreator (fst (onAgentRegistered (fst (onAgentRegistered (NewAgentIndexer 0x1)
          \<lparr>FromAddress = 0x1,
            ToAgentRegisteredEvent = Some \<lparr>ar_Agent = 0xA1, ar_Creator = 0xC1,
               ar_Name = ''alice'', ar_SystemPrompt = ''sp'', ar_PromptPrice = Some 100,
               ar_TokenAddress = Some 0x71, ar_EndTime = 2000\<rparr>,
            ToTokenAddedEvent = None, ToTokenRemovedEvent = None\<rparr>))
          \<lparr>FromAddress = 0x1,
            ToAgentRegisteredEvent = Some \<lparr>ar_Agent = 0xA2, ar_Creator = 0xC1,
               ar_Name = ''bob'', ar_SystemPrompt = ''sp'', ar_PromptPrice = Some 100,
               ar_TokenAddress = Some 0x71, ar_EndTime = 2000\<rparr>,
            ToTokenAddedEvent = None, ToTokenRemovedEvent = None\<rparr>)) 0xC1 1 10 =
     Inr (Some \<lparr>Agents = [\<lparr>Address = Some 0xA2, Creator = Some 0xC1, Name = ''bob'',
                              SystemPrompt = ''sp'', PromptPrice = Some 100,
                              TokenAddress = Some 0x71, EndTime = 2000\<rparr>],
                AgentCount = 2, LastBlock = 0\<rparr>, [])"
proof -
  have lt: "unat (1 :: u64) < length (GetAddressesByCreator (ag_db (fst (onAgentRegistered (fst (onAgentRegistered (NewAgentIndexer 0x1)
          \<lparr>FromAddress = 0x1,
            ToAgentRegisteredEvent = Some \<lparr>ar_Agent = 0xA1, ar_Creator = 0xC1,
               ar_Name = ''alice'', ar_SystemPrompt = ''sp'', ar_PromptPrice = Some 100,
               ar_TokenAddress = Some 0x71, ar_EndTime = 2000\<rparr>,
            ToTokenAddedEvent = None, ToTokenRemovedEvent = None\<rparr>))
          \<lparr>FromAddress = 0x1,
            ToAgentRegisteredEvent = Some \<lparr>ar_Agent = 0xA2, ar_Creator = 0xC1,
               ar_Name = ''bob'', ar_SystemPrompt = ''sp'', ar_PromptPrice = Some 100,
               ar_TokenAddress = Some 0x71, ar_EndTime = 2000\<rparr>,
            ToTokenAddedEvent = None, ToTokenRemovedEvent = None\<rparr>))) (Bytes 0xC1))"
    by (simp add: two_agents_of_creator)
  have fit: "unat (1 :: u64) + unat (10 :: u64) < 2 ^ 64"
    by simp
  have info: "GetAgentInfo (ag_db (fst (onAgentRegistered (fst (onAgentRegistered (NewAgentIndexer 0x1)
          \<lparr>FromAddress = 0x1,
            ToAgentRegisteredEvent = Some \<lparr>ar_Agent = 0xA1, ar_Creator = 0xC1,
               ar_Name = ''alice'', ar_SystemPrompt = ''sp'', ar_PromptPrice = Some 100,
               ar_TokenAddress = Some 0x71, ar_EndTime = 2000\<rparr>,
            ToTokenAddedEvent = None, ToTokenRemovedEvent = None\<rparr>))
          \<lparr>FromAddress = 0x1,
            ToAgentRegisteredEvent = Some \<lparr>ar_Agent = 0xA2, ar_Creator = 0xC1,
               ar_Name = ''bob'', ar_SystemPrompt = ''sp'', ar_PromptPrice = Some 100,
               ar_TokenAddress = Some 0x71, ar_EndTime = 2000\<rparr>,
            ToTokenAddedEvent = None, ToTokenRemovedEvent = None\<rparr>))) 0xA2
                = Some \<lparr>Address = Some 0xA2, Creator = Some 0xC1, Name = ''bob'',
                        SystemPrompt = ''sp'', PromptPrice = Some 100,
                        TokenAddress = Some 0x71, EndTime = 2000\<rparr>"
    by (simp add: onAgentRegistered_def NewAgentIndexer_def SetAgentInfo_def GetAgentInfo_def
          Bytes_def)
  have last: "ag_GetLastIndexedBlock (ag_db (fst (onAgentRegistered (fst (onAgentRegistered (NewAgentIndexer 0x1)
          \<lparr>FromAddress = 0x1,
            ToAgentRegisteredEvent = Some \<lparr>ar_Agent = 0xA1, ar_Creator = 0xC1,
               ar_Name = ''alice'', ar_SystemPrompt = ''sp'', ar_PromptPrice = Some 100,
               ar_TokenAddress = Some 0x71, ar_EndTime = 2000\<rparr>,
            ToTokenAddedEvent = None, ToTokenRemovedEvent = None\<rparr>))
          \<lparr>FromAddress = 0x1,
            ToAgentRegisteredEvent = Some \<lparr>ar_Agent = 0xA2, ar_Creator = 0xC1,
               ar_Name = ''bob'', ar_SystemPrompt = ''sp'', ar_PromptPrice = Some 100,
               ar_TokenAddress = Some 0x71, ar_EndTime = 2000\<rparr>,
            ToTokenAddedEvent = None, ToTokenRemovedEvent = None\<rparr>))) = 0"
    by (simp add: onAgentRegistered_def NewAgentIndexer_def NewAgentIndexerDatabaseInMemory_def
          SetAgentInfo_def ag_GetLastIndexedBlock_def)
  show ?thesis
    unfolding GetAgentsByCreator_page [OF lt fit] two_agents_of_creator
    by (simp add: info last)
qed


subsection \<open>Registration precedes usage\<close>

text \<open>An accepted registration adds an \<open>AgentInfo\<close>; no event takes one away.\<close>

lemma GetAgentInfo_onAgentRegistered_mono:
  "GetAgentInfo (ag_db ai) x \<noteq> None \<Longrightarrow>
   GetAgentInfo (ag_db (fst (onAgentRegistered ai ev))) x \<noteq> None"
  by (auto simp: onAgentRegistered_def SetAgentInfo_def GetAgentInfo_def split: option.splits)

text \<open>
  The database writers themselves create the usage entry for whatever address they are
  given, through \<open>getOrCreateAgentUsage\<close>; an entry that appears is the one of the
  operation's address.
\<close>

lemma usage_step_creates:
  assumes "usage_step udb op = Inr udb'" and "GetAgentExists udb' x" and "\<not> GetAgentExists udb x"
  shows "usage_op_agent op = Some x"
  using assms
  by (cases op)
     (auto simp: GetAgentExists_def StoreAgent_def StorePromptPaidData_def
        StorePromptConsumedData_def SetLastIndexedBlock_def Let_def
        split: prod.splits option.splits sum.splits if_splits)

lemma usage_step_panics:
  "usage_step udb op = Inl p \<Longrightarrow> makesliceCapOutOfRange 8 (maxPrompts udb + 1)"
  by (cases op)
     (auto simp: StoreAgent_panics StorePromptConsumedData_panics split: sum.splits)

lemma projections_step_creates:
  assumes step: "projections_step (ai0, Inr udb0) op = (ai1, Inr udb1)"
      and new: "GetAgentExists udb1 x" and old: "\<not> GetAgentExists udb0 x"
  shows "GetAgentInfo (ag_db ai0) x \<noteq> None"
proof (cases op)
  case (AgentEvent ev)
  with step new old show ?thesis by simp
next
  case (UsageOp uop)
  show ?thesis
  proof (cases "tracked ai0 uop")
    case True
    with step UsageOp have "usage_step udb0 uop = Inr udb1" by simp
    from usage_step_creates [OF this new old] True show ?thesis
      by (simp add: tracked_def)
  next
    case False
    with step UsageOp new old show ?thesis by simp
  qed
qed

lemma registration_precedes_usage_step:
  assumes inv: "registration_precedes_usage s"
  shows "registration_precedes_usage (projections_step s op)"
proof (cases s)
  case (Pair ai u)
  show ?thesis
  proof (cases u)
    case (Inl p)
    with Pair show ?thesis by (simp add: registration_precedes_usage_def)
  next
    case (Inr udb)
    from inv Pair Inr
    have old: "\<And>x. GetAgentExists udb x \<Longrightarrow> GetAgentInfo (ag_db ai) x \<noteq> None"
      by (simp add: registration_precedes_usage_def)
    show ?thesis
    proof (cases op)
      case (AgentEvent ev)
      with Pair Inr old show ?thesis
        by (simp add: registration_precedes_usage_def GetAgentInfo_onAgentRegistered_mono)
    next
      case (UsageOp uop)
      obtain ai1 u1 where res: "projections_step (ai, Inr udb) op = (ai1, u1)"
        by (cases "projections_step (ai, Inr udb) op")
      with UsageOp have ai1: "ai1 = ai" by (simp split: if_splits)
      show ?thesis
      proof (cases u1)
        case (Inl p)
        with Pair \<open>u = Inr udb\<close> res show ?thesis by (simp add: registration_precedes_usage_def)
      next
        case (Inr udb1)
        have "GetAgentInfo (ag_db ai) x \<noteq> None" if ex: "GetAgentExists udb1 x" for x
        proof (cases "GetAgentExists udb x")
          case True
          then show ?thesis by (rule old)
        next
          case False
          from res Inr have "projections_step (ai, Inr udb) op = (ai1, Inr udb1)" by simp
          from projections_step_creates [OF this ex False] show ?thesis .
        qed
        with Pair \<open>u = Inr udb\<close> res Inr ai1 show ?thesis
          by (simp add: registration_precedes_usage_def)
      qed
    qed
  qed
qed

lemma registration_precedes_usage_run:
  "registration_precedes_usage s \<Longrightarrow> registration_precedes_usage (projections_run s ops)"
  unfolding projections_run_def
  by (induction ops arbitrary: s) (simp_all add: registration_precedes_usage_step)

lemma registration_precedes_usage_init:
  "registration_precedes_usage (projections_init registry b K)"
  by (simp add: registration_precedes_usage_def projections_init_def GetAgentExists_def
        NewAgentUsageIndexerDatabaseInMemory_def)

text \<open>With a cap whose history \<open>make\<close> can allocate, no run ends in a panic.\<close>

lemma projections_step_no_panic:
  assumes "\<not> makesliceCapOutOfRange 8 (K + 1)" and "maxPrompts udb = K"
  shows "\<exists>ai' udb'. projections_step (ai, Inr udb) op = (ai', Inr udb') \<and> maxPrompts udb' = K"
proof (cases op)
  case (AgentEvent ev)
  with assms show ?thesis by simp
next
  case (UsageOp uop)
  show ?thesis
  proof (cases "usage_step udb uop")
    case (Inl p)
    from usage_step_panics [OF this] assms show ?thesis by simp
  next
    case (Inr udb')
    from maxPrompts_usage_step [OF this] assms UsageOp Inr show ?thesis by simp
  qed
qed

lemma projections_run_no_panic:
  assumes cap: "\<not> makesliceCapOutOfRange 8 (K + 1)"
  shows "maxPrompts udb = K \<Longrightarrow>
         \<exists>ai' udb'. projections_run (ai, Inr udb) ops = (ai', Inr udb') \<and> maxPrompts udb' = K"
proof (induction ops arbitrary: ai udb)
  case Nil
  then show ?case by (simp add: projections_run_def)
next
  case (Cons op ops)
  from projections_step_no_panic [OF cap Cons.prems, of ai op]
  obtain ai1 udb1 where s: "projections_step (ai, Inr udb) op = (ai1, Inr udb1)"
    and k: "maxPrompts udb1 = K" by blast
  from Cons.IH [OF k, of ai1] s show ?case by (simp add: projections_run_def)
qed

text \<open>
  C2. In every state the two projections reach from their initial state by any sequence
  of registry events and usage writes, an address with an \<open>AgentUsage\<close> entry has an
  \<open>AgentInfo\<close> in the agent projection; no step creates a usage entry for an address
  without one; and with a cap whose history \<open>make\<close> can allocate every such sequence
  reaches a state, none ends in a panic. Events for addresses the agent projection does
  not hold are discarded before the database writers, which by themselves create the
  entry for any address.
\<close>

theorem registration_precedes_usage_invariant:
  "registration_precedes_usage (projections_run (projections_init registry b K) ops)
   \<and> (projections_run (projections_init registry b K) ops = (ai, Inr udb)
        \<and> GetAgentExists udb x \<longrightarrow> GetAgentInfo (ag_db ai) x \<noteq> None)
   \<and> (projections_step (ai0, Inr udb0) op = (ai1, Inr udb1)
        \<and> GetAgentExists udb1 x \<and> \<not> GetAgentExists udb0 x \<longrightarrow>
      GetAgentInfo (ag_db ai0) x \<noteq> None)
   \<and> (\<not> makesliceCapOutOfRange 8 (K + 1) \<longrightarrow>
      (\<exists>ai' udb'. projections_run (projections_init registry b K) ops = (ai', Inr udb')))"
proof (intro conjI impI)
  show inv: "registration_precedes_usage (projections_run (projections_init registry b K) ops)"
    by (rule registration_precedes_usage_run [OF registration_precedes_usage_init])
  show "GetAgentInfo (ag_db ai) x \<noteq> None"
    if "projections_run (projections_init registry b K) ops = (ai, Inr udb) \<and> GetAgentExists udb x"
    using inv that by (simp add: registration_precedes_usage_def)
  show "GetAgentInfo (ag_db ai0) x \<noteq> None"
    if "projections_step (ai0, Inr udb0) op = (ai1, Inr udb1)
        \<and> GetAgentExists udb1 x \<and> \<not> GetAgentExists udb0 x"
    using that projections_step_creates by blast
  show "\<exists>ai' udb'. projections_run (projections_init registry b K) ops = (ai', Inr udb')"
    if cap: "\<not> makesliceCapOutOfRange 8 (K + 1)"
  proof -
    have "maxPrompts (NewAgentUsageIndexerDatabaseInMemory b K) = K"
      by (simp add: NewAgentUsageIndexerDatabaseInMemory_def)
    from projections_run_no_panic [OF cap this, of "NewAgentIndexer registry" ops]
    show ?thesis by (auto simp: projections_init_def)
  qed
qed



theorem registration_precedes_usage_invariant_witness:
  "\<not> makesliceCapOutOfRange 8 (10 + 1)
   \<and> (\<exists>ai udb. projections_run (projections_init 0x1 0 10)
                  [AgentEvent \<lparr>FromAddress = 0x1,
            ToAgentRegisteredEvent = Some \<lparr>ar_Agent = 0xA1, ar_Creator = 0xC1,
               ar_Name = ''alice'', ar_SystemPrompt = ''sp'', ar_PromptPrice = Some 100,
               ar_TokenAddress = Some 0x71, ar_EndTime = 2000\<rparr>,
            ToTokenAddedEvent = None, ToTokenRemovedEvent = None\<rparr>, UsageOp (OpPromptConsumed 5 0xA1 \<lparr>pc_PromptID = 1, pc_DrainedTo = 0xB0\<rparr>), UsageOp (OpPromptConsumed 6 0xA2 \<lparr>pc_PromptID = 42, pc_DrainedTo = 0xA2\<rparr>)] = (ai, Inr udb)
        \<and> GetAgentExists udb 0xA1 \<and> GetAgentInfo (ag_db ai) 0xA1 \<noteq> None
        \<and> \<not> GetAgentExists udb 0xA2 \<and> GetAgentInfo (ag_db ai) 0xA2 = None)
   \<and> (\<exists>udb1. projections_step (fst (onAgentRegistered (NewAgentIndexer 0x1) \<lparr>FromAddress = 0x1,
            ToAgentRegisteredEvent = Some \<lparr>ar_Agent = 0xA1, ar_Creator = 0xC1,
               ar_Name = ''alice'', ar_SystemPrompt = ''sp'', ar_PromptPrice = Some 100,
               ar_TokenAddress = Some 0x71, ar_EndTime = 2000\<rparr>,
            ToTokenAddedEvent = None, ToTokenRemovedEvent = None\<rparr>),
                                 Inr (NewAgentUsageIndexerDatabaseInMemory 0 10))
                (UsageOp (OpPromptConsumed 5 0xA1 \<lparr>pc_PromptID = 1, pc_DrainedTo = 0xB0\<rparr>))
              = (fst (onAgentRegistered (NewAgentIndexer 0x1) \<lparr>FromAddress = 0x1,
            ToAgentRegisteredEvent = Some \<lparr>ar_Agent = 0xA1, ar_Creator = 0xC1,
               ar_Name = ''alice'', ar_SystemPrompt = ''sp'', ar_PromptPrice = Some 100,
               ar_TokenAddress = Some 0x71, ar_EndTime = 2000\<rparr>,
            ToTokenAddedEvent = None, ToTokenRemovedEvent = None\<rparr>), Inr udb1)
        \<and> GetAgentExists udb1 0xA1
        \<and> \<not> GetAgentExists (NewAgentUsageIndexerDatabaseInMemory 0 10) 0xA1
        \<and> GetAgentInfo (ag_db (fst (onAgentRegistered (NewAgentIndexer 0x1) \<lparr>FromAddress = 0x1,
            ToAgentRegisteredEvent = Some \<lparr>ar_Agent = 0xA1, ar_Creator = 0xC1,
               ar_Name = ''alice'', ar_SystemPrompt = ''sp'', ar_PromptPrice = Some 100,
               ar_TokenAddress = Some 0x71, ar_EndTime = 2000\<rparr>,
            ToTokenAddedEvent = None, ToTokenRemovedEvent = None\<rparr>))) 0xA1 \<noteq> None)"
proof -
  let ?ai = "fst (onAgentRegistered (NewAgentIndexer 0x1) \<lparr>FromAddress = 0x1,
            ToAgentRegisteredEvent = Some \<lparr>ar_Agent = 0xA1, ar_Creator = 0xC1,
               ar_Name = ''alice'', ar_SystemPrompt = ''sp'', ar_PromptPrice = Some 100,
               ar_TokenAddress = Some 0x71, ar_EndTime = 2000\<rparr>,
            ToTokenAddedEvent = None, ToTokenRemovedEvent = None\<rparr>)"
  let ?ops = "[AgentEvent \<lparr>FromAddress = 0x1,
            ToAgentRegisteredEvent = Some \<lparr>ar_Agent = 0xA1, ar_Creator = 0xC1,
               ar_Name = ''alice'', ar_SystemPrompt = ''sp'', ar_PromptPrice = Some 100,
               ar_TokenAddress = Some 0x71, ar_EndTime = 2000\<rparr>,
            ToTokenAddedEvent = None, ToTokenRemovedEvent = None\<rparr>, UsageOp (OpPromptConsumed 5 0xA1 \<lparr>pc_PromptID = 1, pc_DrainedTo = 0xB0\<rparr>), UsageOp (OpPromptConsumed 6 0xA2 \<lparr>pc_PromptID = 42, pc_DrainedTo = 0xA2\<rparr>)]"
  have cap: "\<not> makesliceCapOutOfRange 8 (10 + 1)"
    by (simp add: makesliceCapOutOfRange_def maxAlloc_def)
  have t1: "tracked ?ai (OpPromptConsumed 5 0xA1 \<lparr>pc_PromptID = 1, pc_DrainedTo = 0xB0\<rparr>)"
    by (simp add: tracked_def onAgentRegistered_def NewAgentIndexer_def SetAgentInfo_def
          GetAgentInfo_def NewAgentIndexerDatabaseInMemory_def Bytes_def)
  have t2: "\<not> tracked ?ai (OpPromptConsumed 6 0xA2 \<lparr>pc_PromptID = 42, pc_DrainedTo = 0xA2\<rparr>)"
    by (simp add: tracked_def onAgentRegistered_def NewAgentIndexer_def SetAgentInfo_def
          GetAgentInfo_def NewAgentIndexerDatabaseInMemory_def Bytes_def)
  have none2: "GetAgentInfo (ag_db ?ai) 0xA2 = None"
    by (simp add: onAgentRegistered_def NewAgentIndexer_def SetAgentInfo_def
          GetAgentInfo_def NewAgentIndexerDatabaseInMemory_def Bytes_def)
  have fresh: "\<not> GetAgentExists (NewAgentUsageIndexerDatabaseInMemory 0 10) x" for x
    by (simp add: GetAgentExists_def NewAgentUsageIndexerDatabaseInMemory_def)
  have step: "\<exists>udb1. usage_step (NewAgentUsageIndexerDatabaseInMemory 0 10) (OpPromptConsumed 5 0xA1 \<lparr>pc_PromptID = 1, pc_DrainedTo = 0xB0\<rparr>) = Inr udb1
                \<and> GetAgentExists udb1 0xA1 \<and> \<not> GetAgentExists udb1 0xA2"
    by (simp add: NewAgentUsageIndexerDatabaseInMemory_def StorePromptConsumedData_def
          getOrCreateAgentUsage_def makesliceCapOutOfRange_def maxAlloc_def
          GetAgentExists_def lru_Peek_def Bytes_def)
  then obtain udb1 where
    u1: "usage_step (NewAgentUsageIndexerDatabaseInMemory 0 10) (OpPromptConsumed 5 0xA1 \<lparr>pc_PromptID = 1, pc_DrainedTo = 0xB0\<rparr>) = Inr udb1"
    and e1: "GetAgentExists udb1 0xA1" and e2: "\<not> GetAgentExists udb1 0xA2"
    by blast
  have st0: "projections_step (projections_init 0x1 0 10) (AgentEvent \<lparr>FromAddress = 0x1,
            ToAgentRegisteredEvent = Some \<lparr>ar_Agent = 0xA1, ar_Creator = 0xC1,
               ar_Name = ''alice'', ar_SystemPrompt = ''sp'', ar_PromptPrice = Some 100,
               ar_TokenAddress = Some 0x71, ar_EndTime = 2000\<rparr>,
            ToTokenAddedEvent = None, ToTokenRemovedEvent = None\<rparr>)
               = (?ai, Inr (NewAgentUsageIndexerDatabaseInMemory 0 10))"
    by (simp add: projections_init_def)
  have st: "projections_step (?ai, Inr (NewAgentUsageIndexerDatabaseInMemory 0 10)) (UsageOp (OpPromptConsumed 5 0xA1 \<lparr>pc_PromptID = 1, pc_DrainedTo = 0xB0\<rparr>))
              = (?ai, Inr udb1)"
    using t1 u1 by (simp del: usage_step.simps)
  have st2: "projections_step (?ai, Inr udb1) (UsageOp (OpPromptConsumed 6 0xA2 \<lparr>pc_PromptID = 42, pc_DrainedTo = 0xA2\<rparr>)) = (?ai, Inr udb1)"
    using t2 by (simp del: usage_step.simps)
  have run: "projections_run (projections_init 0x1 0 10) ?ops = (?ai, Inr udb1)"
    by (simp only: projections_run_def foldl.simps st0 st st2)
  from registration_precedes_usage_invariant
         [where registry = "0x1" and b = 0 and K = 10 and ops = ?ops and ai = ?ai
            and udb = udb1 and x = "0xA1"] run e1
  have info: "GetAgentInfo (ag_db ?ai) 0xA1 \<noteq> None"
    by blast
  from registration_precedes_usage_invariant
         [where ?ai0.0 = ?ai and ?udb0.0 = "NewAgentUsageIndexerDatabaseInMemory 0 10"
            and op = "UsageOp (OpPromptConsumed 5 0xA1 \<lparr>pc_PromptID = 1, pc_DrainedTo = 0xB0\<rparr>)" and ?ai1.0 = ?ai and ?udb1.0 = udb1 and x = "0xA1"]
       st e1 fresh [of "0xA1"]
  have info': "GetAgentInfo (ag_db ?ai) 0xA1 \<noteq> None"
    by blast
  from cap run e1 e2 info none2 st fresh [of "0xA1"] info' show ?thesis by blast
qed

end
